theory Spec2Isabelle
  imports Complex_Main
begin

section \<open>JavaScript building blocks used by the store\<close>

text \<open>
  A JavaScript \<^verbatim>\<open>Map<number, V>\<close> iterates in insertion order; \<^verbatim>\<open>set\<close> on a key that
  is present replaces the value in place, \<^verbatim>\<open>set\<close> on a new key appends, \<^verbatim>\<open>delete\<close>
  removes the entry and reports whether there was one. The model is an association
  list in insertion order. Ids and limits are JavaScript numbers; the model uses
  \<open>int\<close> (the id counters are exact below \<open>2^53\<close>). Timestamps are milliseconds
  since the epoch, as \<^verbatim>\<open>Date.getTime()\<close> gives them.
\<close>

type_synonym 'v jsmap = "(int \<times> 'v) list"

definition map_get :: "'v jsmap \<Rightarrow> int \<Rightarrow> 'v option" where
  "map_get m k = map_of m k"

fun map_set :: "'v jsmap \<Rightarrow> int \<Rightarrow> 'v \<Rightarrow> 'v jsmap" where
  "map_set [] k v = [(k, v)]"
| "map_set ((k', v') # m) k v =
     (if k' = k then (k, v) # m else (k', v') # map_set m k v)"

definition map_delete :: "'v jsmap \<Rightarrow> int \<Rightarrow> bool \<times> 'v jsmap" where
  "map_delete m k = (map_of m k \<noteq> None, filter (\<lambda>e. fst e \<noteq> k) m)"

definition map_values :: "'v jsmap \<Rightarrow> 'v list" where
  "map_values m = map snd m"

text \<open>
  \<^verbatim>\<open>Array.prototype.slice(0, n)\<close> for an integer \<open>n\<close>: a negative \<open>n\<close> counts from
  the end of the array, so \<^verbatim>\<open>slice(0, -1)\<close> drops the last element.
\<close>

definition slice0 :: "'a list \<Rightarrow> int \<Rightarrow> 'a list" where
  "slice0 xs n =
     (if n < 0 then take (nat (int (length xs) + n)) xs else take (nat n) xs)"

text \<open>
  \<^verbatim>\<open>Array.prototype.sort(cmp)\<close> is a stable sort: \<open>a\<close> stays before \<open>b\<close> unless
  \<open>cmp a b > 0\<close>. Stable insertion from the right end computes that order for the
  comparators of the store, which are differences of integer keys.
\<close>

fun insert_cmp :: "('a \<Rightarrow> 'a \<Rightarrow> int) \<Rightarrow> 'a \<Rightarrow> 'a list \<Rightarrow> 'a list" where
  "insert_cmp cmp x [] = [x]"
| "insert_cmp cmp x (y # ys) =
     (if cmp x y \<le> 0 then x # y # ys else y # insert_cmp cmp x ys)"

definition sort_cmp :: "('a \<Rightarrow> 'a \<Rightarrow> int) \<Rightarrow> 'a list \<Rightarrow> 'a list" where
  "sort_cmp cmp xs = foldr (insert_cmp cmp) xs []"

text \<open>
  The operator \<^verbatim>\<open>x || d\<close> yields \<open>d\<close> when \<open>x\<close> is falsy: \<^verbatim>\<open>undefined\<close>, \<^verbatim>\<open>null\<close>,
  the empty string, the number \<open>0\<close>. An optional or nullable field is an \<open>option\<close>,
  \<open>None\<close> standing for \<^verbatim>\<open>undefined\<close> and \<^verbatim>\<open>null\<close> alike where the code does not tell
  them apart.
\<close>

definition or_str :: "string option \<Rightarrow> string \<Rightarrow> string" where
  "or_str x d = (case x of None \<Rightarrow> d | Some v \<Rightarrow> if v = [] then d else v)"

definition or_null_str :: "string option \<Rightarrow> string option" where
  "or_null_str x = (case x of None \<Rightarrow> None | Some v \<Rightarrow> if v = [] then None else Some v)"

definition or_null_num :: "int option \<Rightarrow> int option" where
  "or_null_num x = (case x of None \<Rightarrow> None | Some v \<Rightarrow> if v = 0 then None else Some v)"

text \<open>
  Object spread \<^verbatim>\<open>{ ...existing, ...update }\<close>, field by field: a key that the update
  carries overrides the existing value, an absent key leaves it.
\<close>

definition spread :: "'a \<Rightarrow> 'a option \<Rightarrow> 'a" where
  "spread old upd = (case upd of None \<Rightarrow> old | Some v \<Rightarrow> v)"

text \<open>JSON values, for the \<^verbatim>\<open>jsonb\<close> columns and the metadata bags.\<close>

datatype json =
    JNull
  | JBool bool
  | JNum rat
  | JStr string
  | JArr "json list"
  | JObj "(string \<times> json) list"

fun truthy :: "json \<Rightarrow> bool" where
  "truthy JNull = False"
| "truthy (JBool b) = b"
| "truthy (JNum n) = (n \<noteq> 0)"
| "truthy (JStr s) = (s \<noteq> [])"
| "truthy (JArr _) = True"
| "truthy (JObj _) = True"

definition or_obj :: "json option \<Rightarrow> json" where
  "or_obj x = (case x of None \<Rightarrow> JObj [] | Some v \<Rightarrow> if truthy v then v else JObj [])"

fun json_field :: "json \<Rightarrow> string \<Rightarrow> json option" where
  "json_field (JObj fs) k = map_of fs k"
| "json_field _ k = None"

text \<open>
  A property read \<^verbatim>\<open>obj[key]\<close> on an object literal finds the literal's own keys and,
  failing that, the members every object inherits from \<^verbatim>\<open>Object.prototype\<close>; an
  inherited member is a function or an object, so it is truthy, and none of the fields
  the services read from it exists.
\<close>

datatype 'a property = Own 'a | Inherited | Undefined

definition object_prototype_keys :: "string list" where
  "object_prototype_keys =
     [''constructor'', ''__proto__'', ''hasOwnProperty'', ''isPrototypeOf'',
      ''propertyIsEnumerable'', ''toLocaleString'', ''toString'', ''valueOf'',
      ''__defineGetter__'', ''__defineSetter__'', ''__lookupGetter__'',
      ''__lookupSetter__'']"

definition get_prop :: "(string \<times> 'a) list \<Rightarrow> string \<Rightarrow> 'a property" where
  "get_prop obj k =
     (case map_of obj k of
        Some v \<Rightarrow> Own v
      | None \<Rightarrow> if k \<in> set object_prototype_keys then Inherited else Undefined)"

text \<open>Decimal rendering of a number inside a template string.\<close>

fun digits :: "nat \<Rightarrow> string" where
  "digits n =
     (if n < 10 then [char_of (48 + n)]
      else digits (n div 10) @ [char_of (48 + n mod 10)])"

definition show_int :: "int \<Rightarrow> string" where
  "show_int i = (if i < 0 then CHR ''-'' # digits (nat (- i)) else digits (nat i))"


section \<open>shared/schema.ts: the entities\<close>

text \<open>
  Each table gives three shapes: the stored row (\<^verbatim>\<open>$inferSelect\<close>), the insert shape
  picked by \<^verbatim>\<open>createInsertSchema(...).pick\<close>, and \<^verbatim>\<open>Partial<Insert...>\<close> for updates,
  where every key may be absent. A nullable column is an \<open>option\<close> in the row; in a
  partial update it is an \<open>option option\<close>: absent, \<^verbatim>\<open>null\<close>, or a value.
\<close>

record User =
  user_id :: int
  user_username :: string
  user_password :: string

record InsertUser =
  new_user_username :: string
  new_user_password :: string

record Script =
  script_id :: int
  script_title :: string
  script_topic :: string
  script_format :: string
  script_content :: string
  script_duration :: "int option"
  script_tone :: "string option"
  script_targetAudience :: "string option"
  script_createdAt :: int
  script_audioPath :: "string option"
  script_status :: string

record InsertScript =
  new_script_title :: string
  new_script_topic :: string
  new_script_format :: string
  new_script_content :: string
  new_script_duration :: "int option"
  new_script_tone :: "string option"
  new_script_targetAudience :: "string option"
  new_script_audioPath :: "string option"
  new_script_status :: "string option"

record PartialScript =
  upd_script_title :: "string option"
  upd_script_topic :: "string option"
  upd_script_format :: "string option"
  upd_script_content :: "string option"
  upd_script_duration :: "int option option"
  upd_script_tone :: "string option option"
  upd_script_targetAudience :: "string option option"
  upd_script_audioPath :: "string option option"
  upd_script_status :: "string option"

record AiConfig =
  aic_id :: int
  aic_name :: string
  aic_modelType :: string
  aic_modelName :: string
  aic_active :: bool
  aic_settings :: json
  aic_capabilities :: json
  aic_lastUpdated :: int
  aic_downloadStatus :: "string option"

record InsertAiConfig =
  new_aic_name :: string
  new_aic_modelType :: string
  new_aic_modelName :: string
  new_aic_active :: "bool option"
  new_aic_settings :: "json option"
  new_aic_capabilities :: "json option"
  new_aic_downloadStatus :: "string option"

record PartialAiConfig =
  upd_aic_name :: "string option"
  upd_aic_modelType :: "string option"
  upd_aic_modelName :: "string option"
  upd_aic_active :: "bool option"
  upd_aic_settings :: "json option"
  upd_aic_capabilities :: "json option"
  upd_aic_downloadStatus :: "string option option"

record Platform =
  platform_id :: int
  platform_name :: string
  platform_icon :: string
  platform_active :: bool

record InsertPlatform =
  new_platform_name :: string
  new_platform_icon :: string
  new_platform_active :: "bool option"

record PartialPlatform =
  upd_platform_name :: "string option"
  upd_platform_icon :: "string option"
  upd_platform_active :: "bool option"

record PlatformAccount =
  account_id :: int
  account_platformId :: int
  account_name :: string
  account_username :: string
  account_accessToken :: "string option"
  account_refreshToken :: "string option"
  account_tokenExpiry :: "int option"
  account_followerCount :: "int option"
  account_active :: bool
  account_metadata :: json

record InsertPlatformAccount =
  new_account_platformId :: int
  new_account_name :: string
  new_account_username :: string
  new_account_accessToken :: "string option"
  new_account_refreshToken :: "string option"
  new_account_tokenExpiry :: "int option"
  new_account_followerCount :: "int option"
  new_account_active :: "bool option"
  new_account_metadata :: "json option"

record PartialPlatformAccount =
  upd_account_platformId :: "int option"
  upd_account_name :: "string option"
  upd_account_username :: "string option"
  upd_account_accessToken :: "string option option"
  upd_account_refreshToken :: "string option option"
  upd_account_tokenExpiry :: "int option option"
  upd_account_followerCount :: "int option option"
  upd_account_active :: "bool option"
  upd_account_metadata :: "json option"

record Content =
  content_id :: int
  content_title :: string
  content_description :: "string option"
  content_contentType :: string
  content_status :: string
  content_filePath :: "string option"
  content_thumbnailPath :: "string option"
  content_metadata :: json
  content_createdAt :: int

record InsertContent =
  new_content_title :: string
  new_content_description :: "string option"
  new_content_contentType :: string
  new_content_status :: "string option"
  new_content_filePath :: "string option"
  new_content_thumbnailPath :: "string option"
  new_content_metadata :: "json option"

record PartialContent =
  upd_content_title :: "string option"
  upd_content_description :: "string option option"
  upd_content_contentType :: "string option"
  upd_content_status :: "string option"
  upd_content_filePath :: "string option option"
  upd_content_thumbnailPath :: "string option option"
  upd_content_metadata :: "json option"

record ScheduledPost =
  post_id :: int
  post_contentId :: int
  post_platformAccountId :: int
  post_scheduledTime :: int
  post_status :: string
  post_postId :: "string option"
  post_error :: "string option"

record InsertScheduledPost =
  new_post_contentId :: int
  new_post_platformAccountId :: int
  new_post_scheduledTime :: int
  new_post_status :: "string option"

record PartialScheduledPost =
  upd_post_contentId :: "int option"
  upd_post_platformAccountId :: "int option"
  upd_post_scheduledTime :: "int option"
  upd_post_status :: "string option"

record TrendingTopic =
  topic_id :: int
  topic_topic :: string
  topic_category :: string
  topic_description :: "string option"
  topic_trendScore :: int
  topic_discoveredAt :: int

record InsertTrendingTopic =
  new_topic_topic :: string
  new_topic_category :: string
  new_topic_description :: "string option"
  new_topic_trendScore :: int

record PartialTrendingTopic =
  upd_topic_topic :: "string option"
  upd_topic_category :: "string option"
  upd_topic_description :: "string option option"
  upd_topic_trendScore :: "int option"


section \<open>The in-memory store: class MemStorage\<close>

record MemStorage =
  users :: "User jsmap"
  scripts :: "Script jsmap"
  aiConfigs :: "AiConfig jsmap"
  platforms :: "Platform jsmap"
  platformAccounts :: "PlatformAccount jsmap"
  contents :: "Content jsmap"
  scheduledPosts :: "ScheduledPost jsmap"
  trendingTopics :: "TrendingTopic jsmap"
  userId :: int
  scriptId :: int
  aiConfigId :: int
  platformId :: int
  accountId :: int
  contentId :: int
  postId :: int
  topicId :: int

text \<open>The constructor, before \<^verbatim>\<open>seedInitialData\<close> runs.\<close>

definition new_MemStorage :: MemStorage where
  "new_MemStorage =
     \<lparr>users = [], scripts = [], aiConfigs = [], platforms = [], platformAccounts = [],
      contents = [], scheduledPosts = [], trendingTopics = [],
      userId = 1, scriptId = 1, aiConfigId = 1, platformId = 1, accountId = 1,
      contentId = 1, postId = 1, topicId = 1\<rparr>"

text \<open>
  Every \<^verbatim>\<open>create\<close> reads the clock for its timestamp column; the reading is the
  argument \<open>now\<close>. A mutating operation returns its result and the store after it.
\<close>

subsection \<open>Users\<close>

definition getUser :: "MemStorage \<Rightarrow> int \<Rightarrow> User option" where
  "getUser s k = map_get (users s) k"

definition getUserByUsername :: "MemStorage \<Rightarrow> string \<Rightarrow> User option" where
  "getUserByUsername s name = find (\<lambda>u. user_username u = name) (map_values (users s))"

definition createUser :: "InsertUser \<Rightarrow> MemStorage \<Rightarrow> User \<times> MemStorage" where
  "createUser ins s =
     (let k = userId s;
          user = \<lparr>user_id = k, user_username = new_user_username ins,
                  user_password = new_user_password ins\<rparr>
      in (user, s\<lparr>userId := k + 1, users := map_set (users s) k user\<rparr>))"

subsection \<open>Scripts\<close>

definition getScripts :: "MemStorage \<Rightarrow> Script list" where
  "getScripts s = map_values (scripts s)"

definition getScript :: "MemStorage \<Rightarrow> int \<Rightarrow> Script option" where
  "getScript s k = map_get (scripts s) k"

definition getRecentScripts :: "MemStorage \<Rightarrow> int \<Rightarrow> Script list" where
  "getRecentScripts s limit =
     slice0 (sort_cmp (\<lambda>a b. script_createdAt b - script_createdAt a)
               (map_values (scripts s))) limit"

definition createScript :: "int \<Rightarrow> InsertScript \<Rightarrow> MemStorage \<Rightarrow> Script \<times> MemStorage" where
  "createScript now ins s =
     (let k = scriptId s;
          script = \<lparr>script_id = k,
                    script_title = new_script_title ins,
                    script_topic = new_script_topic ins,
                    script_format = new_script_format ins,
                    script_content = new_script_content ins,
                    script_duration = or_null_num (new_script_duration ins),
                    script_tone = or_null_str (new_script_tone ins),
                    script_targetAudience = or_null_str (new_script_targetAudience ins),
                    script_createdAt = now,
                    script_audioPath = or_null_str (new_script_audioPath ins),
                    script_status = or_str (new_script_status ins) ''draft''\<rparr>
      in (script, s\<lparr>scriptId := k + 1, scripts := map_set (scripts s) k script\<rparr>))"

definition merge_Script :: "Script \<Rightarrow> PartialScript \<Rightarrow> Script" where
  "merge_Script e u =
     e\<lparr>script_title := spread (script_title e) (upd_script_title u),
       script_topic := spread (script_topic e) (upd_script_topic u),
       script_format := spread (script_format e) (upd_script_format u),
       script_content := spread (script_content e) (upd_script_content u),
       script_duration := spread (script_duration e) (upd_script_duration u),
       script_tone := spread (script_tone e) (upd_script_tone u),
       script_targetAudience := spread (script_targetAudience e) (upd_script_targetAudience u),
       script_audioPath := spread (script_audioPath e) (upd_script_audioPath u),
       script_status := spread (script_status e) (upd_script_status u)\<rparr>"

definition updateScript ::
  "int \<Rightarrow> PartialScript \<Rightarrow> MemStorage \<Rightarrow> Script option \<times> MemStorage" where
  "updateScript k u s =
     (case map_get (scripts s) k of
        None \<Rightarrow> (None, s)
      | Some existing \<Rightarrow>
          (let updated = merge_Script existing u
           in (Some updated, s\<lparr>scripts := map_set (scripts s) k updated\<rparr>)))"

definition deleteScript :: "int \<Rightarrow> MemStorage \<Rightarrow> bool \<times> MemStorage" where
  "deleteScript k s =
     (let (found, m) = map_delete (scripts s) k in (found, s\<lparr>scripts := m\<rparr>))"

subsection \<open>AI configurations\<close>

definition getAiConfigs :: "MemStorage \<Rightarrow> AiConfig list" where
  "getAiConfigs s = map_values (aiConfigs s)"

definition getAiConfig :: "MemStorage \<Rightarrow> int \<Rightarrow> AiConfig option" where
  "getAiConfig s k = map_get (aiConfigs s) k"

definition getAiConfigsByType :: "MemStorage \<Rightarrow> string \<Rightarrow> AiConfig list" where
  "getAiConfigsByType s modelType =
     filter (\<lambda>config. aic_modelType config = modelType) (map_values (aiConfigs s))"

definition createAiConfig ::
  "int \<Rightarrow> InsertAiConfig \<Rightarrow> MemStorage \<Rightarrow> AiConfig \<times> MemStorage" where
  "createAiConfig now ins s =
     (let k = aiConfigId s;
          config = \<lparr>aic_id = k,
                    aic_name = new_aic_name ins,
                    aic_modelType = new_aic_modelType ins,
                    aic_modelName = new_aic_modelName ins,
                    aic_active = (case new_aic_active ins of None \<Rightarrow> True | Some b \<Rightarrow> b),
                    aic_settings = or_obj (new_aic_settings ins),
                    aic_capabilities = or_obj (new_aic_capabilities ins),
                    aic_lastUpdated = now,
                    aic_downloadStatus =
                      Some (or_str (new_aic_downloadStatus ins) ''not_downloaded'')\<rparr>
      in (config, s\<lparr>aiConfigId := k + 1, aiConfigs := map_set (aiConfigs s) k config\<rparr>))"

text \<open>\<^verbatim>\<open>{ ...existingConfig, ...configUpdate, lastUpdated: new Date() }\<close>\<close>

definition merge_AiConfig :: "int \<Rightarrow> AiConfig \<Rightarrow> PartialAiConfig \<Rightarrow> AiConfig" where
  "merge_AiConfig now e u =
     e\<lparr>aic_name := spread (aic_name e) (upd_aic_name u),
       aic_modelType := spread (aic_modelType e) (upd_aic_modelType u),
       aic_modelName := spread (aic_modelName e) (upd_aic_modelName u),
       aic_active := spread (aic_active e) (upd_aic_active u),
       aic_settings := spread (aic_settings e) (upd_aic_settings u),
       aic_capabilities := spread (aic_capabilities e) (upd_aic_capabilities u),
       aic_downloadStatus := spread (aic_downloadStatus e) (upd_aic_downloadStatus u),
       aic_lastUpdated := now\<rparr>"

definition updateAiConfig ::
  "int \<Rightarrow> int \<Rightarrow> PartialAiConfig \<Rightarrow> MemStorage \<Rightarrow> AiConfig option \<times> MemStorage" where
  "updateAiConfig now k u s =
     (case map_get (aiConfigs s) k of
        None \<Rightarrow> (None, s)
      | Some existing \<Rightarrow>
          (let updated = merge_AiConfig now existing u
           in (Some updated, s\<lparr>aiConfigs := map_set (aiConfigs s) k updated\<rparr>)))"

definition deleteAiConfig :: "int \<Rightarrow> MemStorage \<Rightarrow> bool \<times> MemStorage" where
  "deleteAiConfig k s =
     (let (found, m) = map_delete (aiConfigs s) k in (found, s\<lparr>aiConfigs := m\<rparr>))"

subsection \<open>Platforms\<close>

definition getPlatforms :: "MemStorage \<Rightarrow> Platform list" where
  "getPlatforms s = map_values (platforms s)"

definition getPlatform :: "MemStorage \<Rightarrow> int \<Rightarrow> Platform option" where
  "getPlatform s k = map_get (platforms s) k"

definition createPlatform :: "InsertPlatform \<Rightarrow> MemStorage \<Rightarrow> Platform \<times> MemStorage" where
  "createPlatform ins s =
     (let k = platformId s;
          platform = \<lparr>platform_id = k,
                      platform_name = new_platform_name ins,
                      platform_icon = new_platform_icon ins,
                      platform_active =
                        (case new_platform_active ins of None \<Rightarrow> True | Some b \<Rightarrow> b)\<rparr>
      in (platform, s\<lparr>platformId := k + 1, platforms := map_set (platforms s) k platform\<rparr>))"

definition merge_Platform :: "Platform \<Rightarrow> PartialPlatform \<Rightarrow> Platform" where
  "merge_Platform e u =
     e\<lparr>platform_name := spread (platform_name e) (upd_platform_name u),
       platform_icon := spread (platform_icon e) (upd_platform_icon u),
       platform_active := spread (platform_active e) (upd_platform_active u)\<rparr>"

definition updatePlatform ::
  "int \<Rightarrow> PartialPlatform \<Rightarrow> MemStorage \<Rightarrow> Platform option \<times> MemStorage" where
  "updatePlatform k u s =
     (case map_get (platforms s) k of
        None \<Rightarrow> (None, s)
      | Some existing \<Rightarrow>
          (let updated = merge_Platform existing u
           in (Some updated, s\<lparr>platforms := map_set (platforms s) k updated\<rparr>)))"

definition deletePlatform :: "int \<Rightarrow> MemStorage \<Rightarrow> bool \<times> MemStorage" where
  "deletePlatform k s =
     (let (found, m) = map_delete (platforms s) k in (found, s\<lparr>platforms := m\<rparr>))"

subsection \<open>Platform accounts\<close>

definition getPlatformAccounts :: "MemStorage \<Rightarrow> PlatformAccount list" where
  "getPlatformAccounts s = map_values (platformAccounts s)"

definition getPlatformAccount :: "MemStorage \<Rightarrow> int \<Rightarrow> PlatformAccount option" where
  "getPlatformAccount s k = map_get (platformAccounts s) k"

definition getPlatformAccountsByPlatform :: "MemStorage \<Rightarrow> int \<Rightarrow> PlatformAccount list" where
  "getPlatformAccountsByPlatform s pid =
     filter (\<lambda>account. account_platformId account = pid) (map_values (platformAccounts s))"

definition createPlatformAccount ::
  "InsertPlatformAccount \<Rightarrow> MemStorage \<Rightarrow> PlatformAccount \<times> MemStorage" where
  "createPlatformAccount ins s =
     (let k = accountId s;
          account = \<lparr>account_id = k,
                     account_platformId = new_account_platformId ins,
                     account_name = new_account_name ins,
                     account_username = new_account_username ins,
                     account_accessToken = or_null_str (new_account_accessToken ins),
                     account_refreshToken = or_null_str (new_account_refreshToken ins),
                     account_tokenExpiry = new_account_tokenExpiry ins,
                     account_followerCount = or_null_num (new_account_followerCount ins),
                     account_active =
                       (case new_account_active ins of None \<Rightarrow> True | Some b \<Rightarrow> b),
                     account_metadata = or_obj (new_account_metadata ins)\<rparr>
      in (account,
          s\<lparr>accountId := k + 1, platformAccounts := map_set (platformAccounts s) k account\<rparr>))"

definition merge_PlatformAccount ::
  "PlatformAccount \<Rightarrow> PartialPlatformAccount \<Rightarrow> PlatformAccount" where
  "merge_PlatformAccount e u =
     e\<lparr>account_platformId := spread (account_platformId e) (upd_account_platformId u),
       account_name := spread (account_name e) (upd_account_name u),
       account_username := spread (account_username e) (upd_account_username u),
       account_accessToken := spread (account_accessToken e) (upd_account_accessToken u),
       account_refreshToken := spread (account_refreshToken e) (upd_account_refreshToken u),
       account_tokenExpiry := spread (account_tokenExpiry e) (upd_account_tokenExpiry u),
       account_followerCount := spread (account_followerCount e) (upd_account_followerCount u),
       account_active := spread (account_active e) (upd_account_active u),
       account_metadata := spread (account_metadata e) (upd_account_metadata u)\<rparr>"

definition updatePlatformAccount ::
  "int \<Rightarrow> PartialPlatformAccount \<Rightarrow> MemStorage \<Rightarrow> PlatformAccount option \<times> MemStorage" where
  "updatePlatformAccount k u s =
     (case map_get (platformAccounts s) k of
        None \<Rightarrow> (None, s)
      | Some existing \<Rightarrow>
          (let updated = merge_PlatformAccount existing u
           in (Some updated, s\<lparr>platformAccounts := map_set (platformAccounts s) k updated\<rparr>)))"

definition deletePlatformAccount :: "int \<Rightarrow> MemStorage \<Rightarrow> bool \<times> MemStorage" where
  "deletePlatformAccount k s =
     (let (found, m) = map_delete (platformAccounts s) k
      in (found, s\<lparr>platformAccounts := m\<rparr>))"

subsection \<open>Content\<close>

definition getContents :: "MemStorage \<Rightarrow> Content list" where
  "getContents s = map_values (contents s)"

definition getContent :: "MemStorage \<Rightarrow> int \<Rightarrow> Content option" where
  "getContent s k = map_get (contents s) k"

definition getRecentContents :: "MemStorage \<Rightarrow> int \<Rightarrow> Content list" where
  "getRecentContents s limit =
     slice0 (sort_cmp (\<lambda>a b. content_createdAt b - content_createdAt a)
               (map_values (contents s))) limit"

definition createContent :: "int \<Rightarrow> InsertContent \<Rightarrow> MemStorage \<Rightarrow> Content \<times> MemStorage" where
  "createContent now ins s =
     (let k = contentId s;
          content = \<lparr>content_id = k,
                     content_title = new_content_title ins,
                     content_description = or_null_str (new_content_description ins),
                     content_contentType = new_content_contentType ins,
                     content_status = or_str (new_content_status ins) ''draft'',
                     content_filePath = or_null_str (new_content_filePath ins),
                     content_thumbnailPath = or_null_str (new_content_thumbnailPath ins),
                     content_metadata = or_obj (new_content_metadata ins),
                     content_createdAt = now\<rparr>
      in (content, s\<lparr>contentId := k + 1, contents := map_set (contents s) k content\<rparr>))"

definition merge_Content :: "Content \<Rightarrow> PartialContent \<Rightarrow> Content" where
  "merge_Content e u =
     e\<lparr>content_title := spread (content_title e) (upd_content_title u),
       content_description := spread (content_description e) (upd_content_description u),
       content_contentType := spread (content_contentType e) (upd_content_contentType u),
       content_status := spread (content_status e) (upd_content_status u),
       content_filePath := spread (content_filePath e) (upd_content_filePath u),
       content_thumbnailPath := spread (content_thumbnailPath e) (upd_content_thumbnailPath u),
       content_metadata := spread (content_metadata e) (upd_content_metadata u)\<rparr>"

definition updateContent ::
  "int \<Rightarrow> PartialContent \<Rightarrow> MemStorage \<Rightarrow> Content option \<times> MemStorage" where
  "updateContent k u s =
     (case map_get (contents s) k of
        None \<Rightarrow> (None, s)
      | Some existing \<Rightarrow>
          (let updated = merge_Content existing u
           in (Some updated, s\<lparr>contents := map_set (contents s) k updated\<rparr>)))"

definition deleteContent :: "int \<Rightarrow> MemStorage \<Rightarrow> bool \<times> MemStorage" where
  "deleteContent k s =
     (let (found, m) = map_delete (contents s) k in (found, s\<lparr>contents := m\<rparr>))"

subsection \<open>Scheduled posts\<close>


definition getScheduledPost :: "MemStorage \<Rightarrow> int \<Rightarrow> ScheduledPost option" where
  "getScheduledPost s k = map_get (scheduledPosts s) k"


definition createScheduledPost ::
  "InsertScheduledPost \<Rightarrow> MemStorage \<Rightarrow> ScheduledPost \<times> MemStorage" where
  "createScheduledPost ins s =
     (let k = postId s;
          post = \<lparr>post_id = k,
                  post_contentId = new_post_contentId ins,
                  post_platformAccountId = new_post_platformAccountId ins,
                  post_scheduledTime = new_post_scheduledTime ins,
                  post_status = or_str (new_post_status ins) ''pending'',
                  post_postId = None,
                  post_error = None\<rparr>
      in (post, s\<lparr>postId := k + 1, scheduledPosts := map_set (scheduledPosts s) k post\<rparr>))"

definition merge_ScheduledPost :: "ScheduledPost \<Rightarrow> PartialScheduledPost \<Rightarrow> ScheduledPost" where
  "merge_ScheduledPost e u =
     e\<lparr>post_contentId := spread (post_contentId e) (upd_post_contentId u),
       post_platformAccountId :=
         spread (post_platformAccountId e) (upd_post_platformAccountId u),
       post_scheduledTime := spread (post_scheduledTime e) (upd_post_scheduledTime u),
       post_status := spread (post_status e) (upd_post_status u)\<rparr>"

definition updateScheduledPost ::
  "int \<Rightarrow> PartialScheduledPost \<Rightarrow> MemStorage \<Rightarrow> ScheduledPost option \<times> MemStorage" where
  "updateScheduledPost k u s =
     (case map_get (scheduledPosts s) k of
        None \<Rightarrow> (None, s)
      | Some existing \<Rightarrow>
          (let updated = merge_ScheduledPost existing u
           in (Some updated, s\<lparr>scheduledPosts := map_set (scheduledPosts s) k updated\<rparr>)))"

definition deleteScheduledPost :: "int \<Rightarrow> MemStorage \<Rightarrow> bool \<times> MemStorage" where
  "deleteScheduledPost k s =
     (let (found, m) = map_delete (scheduledPosts s) k in (found, s\<lparr>scheduledPosts := m\<rparr>))"

subsection \<open>Trending topics\<close>

definition getTrendingTopics :: "MemStorage \<Rightarrow> TrendingTopic list" where
  "getTrendingTopics s = map_values (trendingTopics s)"

definition getTrendingTopic :: "MemStorage \<Rightarrow> int \<Rightarrow> TrendingTopic option" where
  "getTrendingTopic s k = map_get (trendingTopics s) k"

definition getTopTrendingTopics :: "MemStorage \<Rightarrow> int \<Rightarrow> TrendingTopic list" where
  "getTopTrendingTopics s limit =
     slice0 (sort_cmp (\<lambda>a b. topic_trendScore b - topic_trendScore a)
               (map_values (trendingTopics s))) limit"

definition createTrendingTopic ::
  "int \<Rightarrow> InsertTrendingTopic \<Rightarrow> MemStorage \<Rightarrow> TrendingTopic \<times> MemStorage" where
  "createTrendingTopic now ins s =
     (let k = topicId s;
          topic = \<lparr>topic_id = k,
                   topic_topic = new_topic_topic ins,
                   topic_category = new_topic_category ins,
                   topic_description = or_null_str (new_topic_description ins),
                   topic_trendScore = new_topic_trendScore ins,
                   topic_discoveredAt = now\<rparr>
      in (topic, s\<lparr>topicId := k + 1, trendingTopics := map_set (trendingTopics s) k topic\<rparr>))"

definition merge_TrendingTopic :: "TrendingTopic \<Rightarrow> PartialTrendingTopic \<Rightarrow> TrendingTopic" where
  "merge_TrendingTopic e u =
     e\<lparr>topic_topic := spread (topic_topic e) (upd_topic_topic u),
       topic_category := spread (topic_category e) (upd_topic_category u),
       topic_description := spread (topic_description e) (upd_topic_description u),
       topic_trendScore := spread (topic_trendScore e) (upd_topic_trendScore u)\<rparr>"

definition updateTrendingTopic ::
  "int \<Rightarrow> PartialTrendingTopic \<Rightarrow> MemStorage \<Rightarrow> TrendingTopic option \<times> MemStorage" where
  "updateTrendingTopic k u s =
     (case map_get (trendingTopics s) k of
        None \<Rightarrow> (None, s)
      | Some existing \<Rightarrow>
          (let updated = merge_TrendingTopic existing u
           in (Some updated, s\<lparr>trendingTopics := map_set (trendingTopics s) k updated\<rparr>)))"

definition deleteTrendingTopic :: "int \<Rightarrow> MemStorage \<Rightarrow> bool \<times> MemStorage" where
  "deleteTrendingTopic k s =
     (let (found, m) = map_delete (trendingTopics s) k in (found, s\<lparr>trendingTopics := m\<rparr>))"

subsection \<open>The seed data\<close>

text \<open>
  \<^verbatim>\<open>seedInitialData\<close> builds each record with \<^verbatim>\<open>id: this.counter++\<close> and stores it
  under that id. The three scheduled posts also take \<^verbatim>\<open>this.contentId++\<close> for their
  \<open>contentId\<close>, so they use up three content ids. \<open>now\<close> is the clock while the
  constructor runs.
\<close>

definition seed_aiConfig ::
  "string \<Rightarrow> string \<Rightarrow> string \<Rightarrow> json \<Rightarrow> json \<Rightarrow> int \<Rightarrow> string \<Rightarrow> MemStorage \<Rightarrow> MemStorage" where
  "seed_aiConfig name modelType modelName settings capabilities now status s =
     (let config = \<lparr>aic_id = aiConfigId s, aic_name = name, aic_modelType = modelType,
                    aic_modelName = modelName, aic_active = True, aic_settings = settings,
                    aic_capabilities = capabilities, aic_lastUpdated = now,
                    aic_downloadStatus = Some status\<rparr>
      in s\<lparr>aiConfigId := aiConfigId s + 1,
           aiConfigs := map_set (aiConfigs s) (aic_id config) config\<rparr>)"

definition seed_script :: "(int \<Rightarrow> Script) \<Rightarrow> MemStorage \<Rightarrow> MemStorage" where
  "seed_script build s =
     (let script = build (scriptId s)
      in s\<lparr>scriptId := scriptId s + 1,
           scripts := map_set (scripts s) (script_id script) script\<rparr>)"

definition seed_platform :: "string \<Rightarrow> string \<Rightarrow> MemStorage \<Rightarrow> Platform \<times> MemStorage" where
  "seed_platform name icon s =
     (let platform = \<lparr>platform_id = platformId s, platform_name = name, platform_icon = icon,
                      platform_active = True\<rparr>
      in (platform,
          s\<lparr>platformId := platformId s + 1,
            platforms := map_set (platforms s) (platform_id platform) platform\<rparr>))"

definition seed_account ::
  "Platform \<Rightarrow> string \<Rightarrow> string \<Rightarrow> int \<Rightarrow> json \<Rightarrow> MemStorage \<Rightarrow> PlatformAccount \<times> MemStorage" where
  "seed_account platform name username followers metadata s =
     (let account = \<lparr>account_id = accountId s, account_platformId = platform_id platform,
                     account_name = name, account_username = username,
                     account_accessToken = None, account_refreshToken = None,
                     account_tokenExpiry = None, account_followerCount = Some followers,
                     account_active = True, account_metadata = metadata\<rparr>
      in (account,
          s\<lparr>accountId := accountId s + 1,
            platformAccounts := map_set (platformAccounts s) (account_id account) account\<rparr>))"

definition seed_content :: "(int \<Rightarrow> Content) \<Rightarrow> MemStorage \<Rightarrow> MemStorage" where
  "seed_content build s =
     (let content = build (contentId s)
      in s\<lparr>contentId := contentId s + 1,
           contents := map_set (contents s) (content_id content) content\<rparr>)"

definition seed_post :: "PlatformAccount \<Rightarrow> int \<Rightarrow> string \<Rightarrow> MemStorage \<Rightarrow> MemStorage" where
  "seed_post account scheduledTime status s =
     (let post = \<lparr>post_id = postId s, post_contentId = contentId s,
                  post_platformAccountId = account_id account,
                  post_scheduledTime = scheduledTime, post_status = status,
                  post_postId = None, post_error = None\<rparr>
      in s\<lparr>postId := postId s + 1, contentId := contentId s + 1,
           scheduledPosts := map_set (scheduledPosts s) (post_id post) post\<rparr>)"

definition seed_topic :: "string \<Rightarrow> string \<Rightarrow> string \<Rightarrow> int \<Rightarrow> int \<Rightarrow> MemStorage \<Rightarrow> MemStorage" where
  "seed_topic name category description score now s =
     (let topic = \<lparr>topic_id = topicId s, topic_topic = name, topic_category = category,
                   topic_description = Some description, topic_trendScore = score,
                   topic_discoveredAt = now\<rparr>
      in s\<lparr>topicId := topicId s + 1,
           trendingTopics := map_set (trendingTopics s) (topic_id topic) topic\<rparr>)"

definition videoScript_content :: string where
  "videoScript_content =
       ''# INTRODUCTION\<newline>\<newline>Welcome to this guide on creating co''
       @ ''ntent with zero-cost AI tools. Today we'll explore how you can leverag''
       @ ''e free open-source models to create high-quality content without any s''
       @ ''ubscription fees.\<newline>\<newline># SECTION 1: LOCAL LLMS\<newline>''
       @ ''\<newline>Let's start with text generation. There are several open-sou''
       @ ''rce language models that can run on consumer hardware with surprisingl''
       @ ''y good results. These include models like Llama 3 and Mistral, which c''
       @ ''an be downloaded and run locally.\<newline>\<newline># SECTION 2: TEXT''
       @ ''-TO-SPEECH\<newline>\<newline>Next, let's look at converting your scri''
       @ ''pts to audio. Open-source TTS systems have made remarkable progress, o''
       @ ''ffering near commercial-quality voices without any API costs.''
       @ ''\<newline>\<newline># SECTION 3: IMAGE GENERATION\<newline>\<newline>F''
       @ ''or thumbnails and visuals, local Stable Diffusion or even SVG generato''
       @ ''rs can create eye-catching graphics completely free.\<newline>''
       @ ''\<newline># CONCLUSION\<newline>\<newline>By combining these tools, yo''
       @ ''u can build a complete content creation pipeline that operates entirel''
       @ ''y on your own hardware, with zero ongoing costs. Thanks for watching!''"

definition shortScript_content :: string where
  "shortScript_content =
       ''Did you know you can create professional content without spending a di''
       @ ''me? Here are 5 free AI tools that every creator should be using right ''
       @ ''now:\<newline>\<newline>1. Open source language models for scriptwriti''
       @ ''ng\<newline>2. Free text-to-speech for voiceovers\<newline>3. Local im''
       @ ''age generation for thumbnails\<newline>4. Open source video editors''
       @ ''\<newline>5. Free automation tools for posting\<newline>\<newline>The ''
       @ ''best part? All of these can run on your own computer with zero subscri''
       @ ''ption fees. Follow for more tips on building your content creation pip''
       @ ''eline without breaking the bank!''"

definition day :: int where
  "day = 24 * 60 * 60 * 1000"

definition seedInitialData :: "int \<Rightarrow> MemStorage \<Rightarrow> MemStorage" where
  "seedInitialData now s0 =
     (let s1 = seed_aiConfig ''Llama 3'' ''llm'' ''llama3''
                 (JObj [(''maxTokens'', JNum 2048), (''temperature'', JNum (7 / 10)),
                        (''topP'', JNum (9 / 10))])
                 (JObj [(''scriptGeneration'', JBool True), (''contentCreation'', JBool True),
                        (''trendAnalysis'', JBool True), (''summarization'', JBool True)])
                 now ''not_downloaded'' s0;
          s2 = seed_aiConfig ''Local TTS'' ''tts'' ''professional-male''
                 (JObj [(''speed'', JNum 1), (''format'', JStr ''mp3'')])
                 (JObj [(''voiceGeneration'', JBool True), (''scriptToAudio'', JBool True),
                        (''voiceStyles'',
                         JArr [JStr ''professional'', JStr ''casual'', JStr ''energetic''])])
                 now ''available'' s1;
          s3 = seed_aiConfig ''SVG Generator'' ''image'' ''svg-generator''
                 (JObj [(''size'', JStr ''1024x1024''), (''style'', JStr ''artistic'')])
                 (JObj [(''thumbnailGeneration'', JBool True), (''imageGeneration'', JBool True),
                        (''supportedSizes'',
                         JArr [JStr ''512x512'', JStr ''1024x1024'', JStr ''1280x720''])])
                 now ''available'' s2;
          s4 = seed_script
                 (\<lambda>k. \<lparr>script_id = k, script_title = ''Creating Zero-Cost Content with AI'',
                        script_topic = ''AI content creation'', script_format = ''video'',
                        script_content = videoScript_content, script_duration = Some 360,
                        script_tone = Some ''educational'',
                        script_targetAudience = Some ''content creators'',
                        script_createdAt = now - 2 * day, script_audioPath = None,
                        script_status = ''draft''\<rparr>) s3;
          s5 = seed_script
                 (\<lambda>k. \<lparr>script_id = k, script_title = ''5 AI Tools Every Creator Needs'',
                        script_topic = ''AI tools'', script_format = ''short'',
                        script_content = shortScript_content, script_duration = Some 60,
                        script_tone = Some ''enthusiastic'',
                        script_targetAudience = Some ''social media creators'',
                        script_createdAt = now - 1 * day,
                        script_audioPath = Some ''/content/audio/5-ai-tools.mp3'',
                        script_status = ''finalized''\<rparr>) s4;
          (youtubePlatform, s6) = seed_platform ''YouTube'' ''smart_display'' s5;
          (instagramPlatform, s7) = seed_platform ''Instagram'' ''photo_camera'' s6;
          (twitterPlatform, s8) = seed_platform ''Twitter'' ''tag'' s7;
          (youtubeAccount, s9) =
            seed_account youtubePlatform ''Tech Channel'' ''TechChannel'' 15200
              (JObj [(''subscriberCount'', JNum 15200)]) s8;
          (instagramAccount, s10) =
            seed_account instagramPlatform ''@techinsider'' ''techinsider'' 8700
              (JObj [(''followersCount'', JNum 8700)]) s9;
          (twitterAccount, s11) =
            seed_account twitterPlatform ''@TechDaily'' ''TechDaily'' 12400
              (JObj [(''followersCount'', JNum 12400)]) s10;
          s12 = seed_content
                  (\<lambda>k. \<lparr>content_id = k,
                         content_title = ''Top 10 AI Tools for Content Creators in 2023'',
                         content_description =
                           Some ''A comprehensive guide to the best AI tools for content creators in 2023.'',
                         content_contentType = ''video'', content_status = ''published'',
                         content_filePath = Some ''/content/videos/top-10-ai-tools.mp4'',
                         content_thumbnailPath = Some ''/content/thumbnails/top-10-ai-tools.jpg'',
                         content_metadata =
                           JObj [(''duration'', JStr ''12:45''), (''views'', JNum 2400),
                                 (''likes'', JNum 187)],
                         content_createdAt = now - 3 * day\<rparr>) s11;
          s13 = seed_content
                  (\<lambda>k. \<lparr>content_id = k,
                         content_title = ''The Future of Self-Hosted AI Applications'',
                         content_description =
                           Some ''Exploring how AI can be used in self-hosted applications.'',
                         content_contentType = ''image'', content_status = ''published'',
                         content_filePath = Some ''/content/images/self-hosted-ai.jpg'',
                         content_thumbnailPath = Some ''/content/thumbnails/self-hosted-ai.jpg'',
                         content_metadata =
                           JObj [(''likes'', JNum 845), (''comments'', JNum 32)],
                         content_createdAt = now - 5 * day\<rparr>) s12;
          s14 = seed_content
                  (\<lambda>k. \<lparr>content_id = k,
                         content_title = ''Building a Zero-Cost Content Creation Pipeline'',
                         content_description =
                           Some ''How to build a content creation pipeline with zero ongoing costs.'',
                         content_contentType = ''text'', content_status = ''published'',
                         content_filePath = None,
                         content_thumbnailPath =
                           Some ''/content/thumbnails/zero-cost-pipeline.jpg'',
                         content_metadata =
                           JObj [(''retweets'', JNum 126), (''likes'', JNum 248)],
                         content_createdAt = now - 7 * day\<rparr>) s13;
          s15 = seed_post twitterAccount (now + 2 * 60 * 60 * 1000) ''pending'' s14;
          s16 = seed_post youtubeAccount (now + 24 * 60 * 60 * 1000) ''pending'' s15;
          s17 = seed_post instagramAccount (now + 5 * day) ''draft'' s16;
          s18 = seed_topic ''Open Source AI Models'' ''Tech''
                  ''Rising interest in locally hosted, free AI tools for content creators and developers.''
                  78 now s17;
          s19 = seed_topic ''Self-Hosted Content Creation'' ''Productivity''
                  ''Growing demand for subscription-free tools that work offline for creators.''
                  65 now s18
      in seed_topic ''Voice Generation Technology'' ''AI''
           ''New advancements in high-quality offline voice synthesis for content creators.''
           92 now s19)"

text \<open>\<^verbatim>\<open>export const storage = new MemStorage()\<close>\<close>

definition storage :: "int \<Rightarrow> MemStorage" where
  "storage now = seedInitialData now new_MemStorage"


section \<open>The generation services\<close>

text \<open>
  An exception is a value: \<open>JsError msg\<close> for \<^verbatim>\<open>throw new Error(msg)\<close>, \<open>TypeError\<close> for
  a property read on \<^verbatim>\<open>undefined\<close>. The timers that simulate latency are left out;
  what a timer callback does is done at the point where the caller awaits it.
  A \<^verbatim>\<open>Set<string>\<close> is the list of its members in insertion order.
\<close>

datatype exn = JsError string | TypeError

definition set_add :: "string list \<Rightarrow> string \<Rightarrow> string list" where
  "set_add xs x = (if x \<in> set xs then xs else xs @ [x])"

definition first :: "'a list \<Rightarrow> 'a option" where
  "first xs = (case xs of [] \<Rightarrow> None | x # _ \<Rightarrow> Some x)"

definition or_undefined :: "string option \<Rightarrow> string" where
  "or_undefined x = (case x of None \<Rightarrow> ''undefined'' | Some v \<Rightarrow> v)"

subsection \<open>LocalImageGenerator\<close>

record ImageModel =
  model_id :: string
  model_name :: string
  model_type :: string
  supportedStyles :: "string list"
  supportedSizes :: "string list"
  supportedFormats :: "string list"
  downloadSizeGB :: rat
  minRamGB :: rat
  recommendedGPU :: bool
  generationTimeSeconds :: rat

definition availableModels :: "(string \<times> ImageModel) list" where
  "availableModels =
     [(''svg-generator'',
       \<lparr>model_id = ''svg-generator'', model_name = ''SVG Vector Generator'',
        model_type = ''svg-generator'',
        supportedStyles = [''minimalist'', ''abstract'', ''cartoon''],
        supportedSizes = [''512x512'', ''1024x1024'', ''1280x720''],
        supportedFormats = [''svg'', ''png''],
        downloadSizeGB = 2 / 10, minRamGB = 2, recommendedGPU = False,
        generationTimeSeconds = 3\<rparr>),
      (''stable-diffusion-lite'',
       \<lparr>model_id = ''stable-diffusion-lite'', model_name = ''Stable Diffusion Lite'',
        model_type = ''stable-diffusion'',
        supportedStyles = [''photorealistic'', ''artistic'', ''abstract''],
        supportedSizes = [''512x512'', ''768x768''],
        supportedFormats = [''jpg'', ''png''],
        downloadSizeGB = 25 / 10, minRamGB = 4, recommendedGPU = True,
        generationTimeSeconds = 15\<rparr>),
      (''sketch-generator'',
       \<lparr>model_id = ''sketch-generator'', model_name = ''Sketch Generator'',
        model_type = ''sketch-generator'',
        supportedStyles = [''minimalist'', ''cartoon''],
        supportedSizes = [''512x512'', ''1024x1024''],
        supportedFormats = [''png'', ''svg''],
        downloadSizeGB = 8 / 10, minRamGB = 2, recommendedGPU = False,
        generationTimeSeconds = 5\<rparr>)]"

record ImageGenerationParams =
  param_prompt :: string
  param_negativePrompt :: "string option"
  param_size :: "string option"
  param_style :: "string option"
  param_format :: "string option"
  param_seed :: "int option"
  param_modelId :: "string option"

record LocalImageGenerator =
  downloadedModels :: "string list"
  activeModel :: string
  image_isProcessing :: bool
  imageCounter :: int

definition new_LocalImageGenerator :: LocalImageGenerator where
  "new_LocalImageGenerator =
     \<lparr>downloadedModels = [''svg-generator''], activeModel = ''svg-generator'',
      image_isProcessing = False, imageCounter = 1\<rparr>"

definition outputDir :: string where
  "outputDir = ''/content/images''"

definition thumbnailDir :: string where
  "thumbnailDir = ''/content/thumbnails''"

definition ensureModel :: "string \<Rightarrow> LocalImageGenerator \<Rightarrow> bool \<times> LocalImageGenerator" where
  "ensureModel modelId g =
     (case get_prop availableModels modelId of
        Undefined \<Rightarrow> (False, g)
      | _ \<Rightarrow>
          if modelId \<in> set (downloadedModels g) then (True, g\<lparr>activeModel := modelId\<rparr>)
          else (True, g\<lparr>downloadedModels := set_add (downloadedModels g) modelId,
                         activeModel := modelId\<rparr>))"

record ImageResult =
  imagePath :: string
  image_prompt :: string
  image_size :: "string option"
  image_style :: "string option"
  image_format :: "string option"
  generationTime :: rat

text \<open>
  \<^verbatim>\<open>params.x && model.supported.includes(params.x) ? params.x : model.supported[0]\<close>;
  \<open>None\<close> is the \<^verbatim>\<open>undefined\<close> that index 0 of an empty array gives.
\<close>

definition supported_or_first :: "string option \<Rightarrow> string list \<Rightarrow> string option" where
  "supported_or_first requested supported =
     (case requested of
        None \<Rightarrow> first supported
      | Some v \<Rightarrow> if v \<noteq> [] \<and> v \<in> set supported then Some v else first supported)"

definition generateImage ::
  "int \<Rightarrow> ImageGenerationParams \<Rightarrow> LocalImageGenerator \<Rightarrow>
     (exn + ImageResult) \<times> LocalImageGenerator" where
  "generateImage now params g0 =
     (let g1 = g0\<lparr>image_isProcessing := True\<rparr>;
          modelId = or_str (param_modelId params) (activeModel g1);
          g2 = (if modelId \<notin> set (downloadedModels g1) then snd (ensureModel modelId g1)
                else g1)
      in case get_prop availableModels modelId of
           Own model \<Rightarrow>
             (let imageSize = supported_or_first (param_size params) (supportedSizes model);
                  style = supported_or_first (param_style params) (supportedStyles model);
                  format = supported_or_first (param_format params) (supportedFormats model);
                  timestamp = now;
                  filename = ''img_'' @ show_int (imageCounter g2) @ ''_'' @ show_int timestamp
                               @ ''.'' @ or_undefined format;
                  path = outputDir @ ''/'' @ filename;
                  baseTime = generationTimeSeconds model * 1000;
                  sizeMultiplier =
                    (if imageSize = Some ''1024x1024'' then 15 / 10
                     else if imageSize = Some ''1920x1080'' then 2 else 1);
                  processingTime = min 5000 (baseTime * sizeMultiplier)
              in (Inr \<lparr>imagePath = path, image_prompt = param_prompt params,
                        image_size = imageSize, image_style = style, image_format = format,
                        generationTime = processingTime / 1000\<rparr>,
                  g2\<lparr>imageCounter := imageCounter g2 + 1, image_isProcessing := False\<rparr>))
         | _ \<Rightarrow> (Inl TypeError, g2))"

record Thumbnail =
  thumbnailPath :: string
  thumb_prompt :: string
  thumb_size :: string
  thumb_style :: string

text \<open>The caller that omits \<open>style\<close> and \<open>size\<close> gets \<^verbatim>\<open>'artistic'\<close> and \<^verbatim>\<open>'1280x720'\<close>.\<close>

definition generateThumbnail ::
  "int \<Rightarrow> string \<Rightarrow> string \<Rightarrow> string \<Rightarrow> LocalImageGenerator \<Rightarrow>
     Thumbnail \<times> LocalImageGenerator" where
  "generateThumbnail now topic style imageSize g =
     (let prompt = ''Thumbnail image for content about '' @ [CHR 0x22] @ topic @ [CHR 0x22]
                     @ ''. Vibrant colors, eye-catching design, professional looking, ''
                     @ style @ '' style, suitable for social media thumbnail'';
          timestamp = now;
          filename = ''thumb_'' @ show_int (imageCounter g) @ ''_'' @ show_int timestamp @ ''.png'';
          path = thumbnailDir @ ''/'' @ filename
      in (\<lparr>thumbnailPath = path, thumb_prompt = prompt, thumb_size = imageSize,
            thumb_style = style\<rparr>,
          g\<lparr>imageCounter := imageCounter g + 1, image_isProcessing := False\<rparr>))"

subsection \<open>LocalTTS\<close>

record Voice =
  voice_id :: string
  voice_name :: string
  voice_gender :: string
  voice_style :: string
  voice_accent :: string
  voice_sampleRate :: int
  voice_previewUrl :: string
  voice_downloadSize :: int
  voice_naturalness :: int

definition availableVoices :: "(string \<times> Voice) list" where
  "availableVoices =
     [(''professional-male'',
       \<lparr>voice_id = ''professional-male'', voice_name = ''James'', voice_gender = ''male'',
        voice_style = ''professional'', voice_accent = ''american'', voice_sampleRate = 24000,
        voice_previewUrl = ''/audio/samples/james-sample.mp3'', voice_downloadSize = 320,
        voice_naturalness = 8\<rparr>),
      (''professional-female'',
       \<lparr>voice_id = ''professional-female'', voice_name = ''Emma'', voice_gender = ''female'',
        voice_style = ''professional'', voice_accent = ''british'', voice_sampleRate = 24000,
        voice_previewUrl = ''/audio/samples/emma-sample.mp3'', voice_downloadSize = 315,
        voice_naturalness = 8\<rparr>),
      (''casual-male'',
       \<lparr>voice_id = ''casual-male'', voice_name = ''Mike'', voice_gender = ''male'',
        voice_style = ''casual'', voice_accent = ''american'', voice_sampleRate = 22050,
        voice_previewUrl = ''/audio/samples/mike-sample.mp3'', voice_downloadSize = 290,
        voice_naturalness = 7\<rparr>),
      (''casual-female'',
       \<lparr>voice_id = ''casual-female'', voice_name = ''Sarah'', voice_gender = ''female'',
        voice_style = ''casual'', voice_accent = ''american'', voice_sampleRate = 22050,
        voice_previewUrl = ''/audio/samples/sarah-sample.mp3'', voice_downloadSize = 295,
        voice_naturalness = 7\<rparr>),
      (''energetic-male'',
       \<lparr>voice_id = ''energetic-male'', voice_name = ''Alex'', voice_gender = ''male'',
        voice_style = ''energetic'', voice_accent = ''australian'', voice_sampleRate = 24000,
        voice_previewUrl = ''/audio/samples/alex-sample.mp3'', voice_downloadSize = 310,
        voice_naturalness = 7\<rparr>),
      (''narrative-female'',
       \<lparr>voice_id = ''narrative-female'', voice_name = ''Lily'', voice_gender = ''female'',
        voice_style = ''narrative'', voice_accent = ''neutral'', voice_sampleRate = 24000,
        voice_previewUrl = ''/audio/samples/lily-sample.mp3'', voice_downloadSize = 325,
        voice_naturalness = 9\<rparr>)]"

text \<open>
  \<^verbatim>\<open>getVoices().available\<close> is \<^verbatim>\<open>Object.values(availableVoices)\<close>: the voices of the
  table's own keys.
\<close>

definition listed_voices :: "string list" where
  "listed_voices = map (\<lambda>e. voice_id (snd e)) availableVoices"

record TTSSettings =
  speed :: rat
  pitch :: rat
  volume :: rat
  format :: string
  sampleRate :: "int option"

record PartialTTSSettings =
  upd_speed :: "rat option"
  upd_pitch :: "rat option"
  upd_volume :: "rat option"
  upd_format :: "string option"
  upd_sampleRate :: "int option option"

definition defaultSettings :: TTSSettings where
  "defaultSettings = \<lparr>speed = 1, pitch = 1, volume = 1, format = ''mp3'', sampleRate = None\<rparr>"

record LocalTTS =
  downloadedVoices :: "string list"
  tts_isProcessing :: bool
  audioCounter :: int

definition new_LocalTTS :: LocalTTS where
  "new_LocalTTS =
     \<lparr>downloadedVoices = [''professional-male'', ''professional-female''],
      tts_isProcessing = False, audioCounter = 1\<rparr>"

definition tts_outputDir :: string where
  "tts_outputDir = ''/content/audio''"

definition downloadVoice :: "string \<Rightarrow> LocalTTS \<Rightarrow> bool \<times> LocalTTS" where
  "downloadVoice voiceId t =
     (case get_prop availableVoices voiceId of
        Undefined \<Rightarrow> (False, t)
      | _ \<Rightarrow> (True, t\<lparr>downloadedVoices := set_add (downloadedVoices t) voiceId\<rparr>))"

text \<open>
  \<^verbatim>\<open>text.split(/\s+/).length\<close>: one more piece than there are maximal runs of
  whitespace; the empty string gives one piece. A \<open>char\<close> stands for one code unit of
  the JavaScript string.
\<close>

definition is_space :: "char \<Rightarrow> bool" where
  "is_space c = ((of_char c :: nat) \<in> {9, 10, 11, 12, 13, 32, 160})"

fun whitespace_runs :: "string \<Rightarrow> nat" where
  "whitespace_runs [] = 0"
| "whitespace_runs [c] = (if is_space c then 1 else 0)"
| "whitespace_runs (c # d # cs) =
     (if is_space c \<and> \<not> is_space d then 1 else 0) + whitespace_runs (d # cs)"

record AudioResult =
  audioPath :: string
  durationMs :: "int option"
  audio_format :: string
  wordCount :: nat

text \<open>
  \<open>durationMs\<close> is \<^verbatim>\<open>Math.round(wordCount / (2.5 * speed) * 1000)\<close>, here in exact
  rational arithmetic where the code computes in doubles; \<open>None\<close> is the infinite
  value that a speed of zero gives. The code rounds the product, the quotient and the
  final product to a double each, so where the exact value lies within a rounding error
  of a half the code's \<open>durationMs\<close> can be one less or one more than the model's. No
  theorem below depends on such a value: the callers in the repository pass no speed,
  and at the default speed the exact value is the integer \<open>400 * wordCount\<close>.
\<close>

definition textToAudio ::
  "int \<Rightarrow> string \<Rightarrow> string \<Rightarrow> PartialTTSSettings \<Rightarrow> LocalTTS \<Rightarrow>
     (exn + AudioResult) \<times> LocalTTS" where
  "textToAudio now text voiceId settings t0 =
     (let t1 = t0\<lparr>tts_isProcessing := True\<rparr>;
          (available, t2) =
            (if voiceId \<notin> set (downloadedVoices t1) then downloadVoice voiceId t1
             else (True, t1))
      in if \<not> available then
           (Inl (JsError (''Voice '' @ voiceId
                            @ '' is not available and could not be downloaded'')), t2)
         else
           (let mergedSettings =
                  \<lparr>speed = spread (speed defaultSettings) (upd_speed settings),
                   pitch = spread (pitch defaultSettings) (upd_pitch settings),
                   volume = spread (volume defaultSettings) (upd_volume settings),
                   format = spread (format defaultSettings) (upd_format settings),
                   sampleRate = spread (sampleRate defaultSettings) (upd_sampleRate settings)\<rparr>;
                words = whitespace_runs text + 1;
                wordsPerSecond = (25 / 10) * speed mergedSettings;
                duration =
                  (if wordsPerSecond = 0 then None
                   else Some \<lfloor>of_nat words / wordsPerSecond * 1000 + 1 / 2\<rfloor>);
                timestamp = now;
                filename = ''tts_'' @ show_int (audioCounter t2) @ ''_'' @ show_int timestamp
                             @ ''.'' @ format mergedSettings;
                path = tts_outputDir @ ''/'' @ filename
            in (Inr \<lparr>audioPath = path, durationMs = duration,
                      audio_format = format mergedSettings, wordCount = words\<rparr>,
                t2\<lparr>audioCounter := audioCounter t2 + 1, tts_isProcessing := False\<rparr>)))"

text \<open>
  \<^verbatim>\<open>prepareScriptForTTS\<close> is a chain of regular-expression replacements that returns a
  string for every input; \<open>scriptToAudio\<close> takes it as the parameter \<open>prepare\<close>.
\<close>

definition scriptToAudio ::
  "(string \<Rightarrow> string) \<Rightarrow> int \<Rightarrow> string \<Rightarrow> string \<Rightarrow> string \<Rightarrow> LocalTTS \<Rightarrow>
     (exn + AudioResult) \<times> LocalTTS" where
  "scriptToAudio prepare now scriptContent voiceId fmt t =
     (let cleanedScript = prepare scriptContent
      in textToAudio now cleanedScript voiceId
           \<lparr>upd_speed = None, upd_pitch = None, upd_volume = None, upd_format = Some fmt,
            upd_sampleRate = None\<rparr> t)"


section \<open>The automation route: POST /create-content\<close>

text \<open>
  The request is the value that \<^verbatim>\<open>requestSchema.parse\<close> accepts: four optional keys.
  The language model and the video compiler build their texts and paths from random
  templates and regular expressions; the handler takes them as the parameter
  \<open>Services\<close>, each call returning its value or the exception it throws. The image
  generator is the one modelled above, in the state \<open>g\<close> it has when the handler
  calls it. \<open>Clock\<close> holds the clock readings along the handler's path.
\<close>

datatype contentType = Video | Image | Text

record CreateContentRequest =
  req_topicId :: "int option"
  req_platformId :: "int option"
  req_contentType :: "contentType option"
  req_scheduleImmediately :: "bool option"

record VideoRequest =
  video_script :: string
  video_title :: string
  video_resolution :: string
  video_style :: string
  video_thumbnailPrompt :: string

record VideoResponse =
  videoPath :: string
  video_thumbnailPath :: string
  video_duration :: int
  video_format :: string
  video_resolution_out :: string

record Services =
  generateScript :: "string \<Rightarrow> string \<Rightarrow> int \<Rightarrow> string \<Rightarrow> string \<Rightarrow> exn + string"
  generateContent :: "string \<Rightarrow> string \<Rightarrow> string \<Rightarrow> string \<Rightarrow> exn + string"
  generateVideo :: "VideoRequest \<Rightarrow> exn + VideoResponse"

record Clock =
  clock_script :: int
  clock_image :: int
  clock_content :: int
  clock_schedule :: int

datatype artifacts =
    VideoArtifacts Script VideoResponse
  | ImageArtifacts ImageResult
  | TextArtifacts string

record CreateContentResult =
  res_topic :: TrendingTopic
  res_artifacts :: artifacts
  res_content :: Content
  res_scheduledPost :: "ScheduledPost option"

text \<open>Status 201 with the result, 404 with a message, 500 with the exception's message.\<close>

datatype response =
    Created CreateContentResult
  | NotFound string
  | ServerError exn

fun succeeded :: "response \<Rightarrow> bool" where
  "succeeded (Created _) = True"
| "succeeded _ = False"

text \<open>
  Topic resolution. \<^verbatim>\<open>if (request.topicId)\<close> is false for an absent id and for the
  id \<open>0\<close>; both take the top trending topic.
\<close>

definition top_topic :: "MemStorage \<Rightarrow> string + TrendingTopic" where
  "top_topic s =
     (case getTopTrendingTopics s 1 of
        [] \<Rightarrow> Inl ''No trending topics available''
      | topic # _ \<Rightarrow> Inr topic)"

definition resolve_topic :: "CreateContentRequest \<Rightarrow> MemStorage \<Rightarrow> string + TrendingTopic" where
  "resolve_topic request s =
     (case req_topicId request of
        None \<Rightarrow> top_topic s
      | Some tid \<Rightarrow>
          if tid \<noteq> 0 then
            (case getTrendingTopic s tid of
               None \<Rightarrow> Inl ''Topic not found''
             | Some topic \<Rightarrow> Inr topic)
          else top_topic s)"

text \<open>
  The scheduling step, written out identically in each of the three branches:
  \<^verbatim>\<open>if (request.scheduleImmediately && request.platformId)\<close>, then the first account
  that \<^verbatim>\<open>getPlatformAccountsByPlatform\<close> returns, if there is one.
\<close>

definition schedule_step ::
  "int \<Rightarrow> CreateContentRequest \<Rightarrow> Content \<Rightarrow> MemStorage \<Rightarrow>
     ScheduledPost option \<times> MemStorage" where
  "schedule_step now request content s =
     (case (req_scheduleImmediately request, req_platformId request) of
        (Some True, Some pid) \<Rightarrow>
          if pid \<noteq> 0 then
            (case getPlatformAccountsByPlatform s pid of
               [] \<Rightarrow> (None, s)
             | account # _ \<Rightarrow>
                 (let (post, s') =
                        createScheduledPost
                          \<lparr>new_post_contentId = content_id content,
                           new_post_platformAccountId = account_id account,
                           new_post_scheduledTime = now + 60 * 60 * 1000,
                           new_post_status = Some ''pending''\<rparr> s
                  in (Some post, s')))
          else (None, s)
      | _ \<Rightarrow> (None, s))"

definition create_video ::
  "Services \<Rightarrow> LocalImageGenerator \<Rightarrow> Clock \<Rightarrow> CreateContentRequest \<Rightarrow> TrendingTopic \<Rightarrow>
     MemStorage \<Rightarrow> response \<times> MemStorage" where
  "create_video sv g clk request topic s =
     (case generateScript sv (topic_topic topic) ''video'' 5 ''educational'' ''general'' of
        Inl e \<Rightarrow> (ServerError e, s)
      | Inr scriptContent \<Rightarrow>
          (let (script, s1) =
                 createScript (clock_script clk)
                   \<lparr>new_script_title = ''Video about '' @ topic_topic topic,
                    new_script_topic = topic_topic topic,
                    new_script_format = ''video'',
                    new_script_content = scriptContent,
                    new_script_duration = Some 300,
                    new_script_tone = Some ''educational'',
                    new_script_targetAudience = Some ''general'',
                    new_script_audioPath = None,
                    new_script_status = Some ''draft''\<rparr> s;
               thumbnail =
                 generateThumbnail (clock_image clk) (topic_topic topic) ''artistic''
                   ''1280x720'' g
           in case generateVideo sv
                     \<lparr>video_script = scriptContent,
                      video_title = script_title script,
                      video_resolution = ''720p'',
                      video_style = ''dynamic'',
                      video_thumbnailPrompt =
                        ''Thumbnail for video about '' @ topic_topic topic\<rparr> of
                Inl e \<Rightarrow> (ServerError e, s1)
              | Inr videoResult \<Rightarrow>
                  (let (content, s2) =
                         createContent (clock_content clk)
                           \<lparr>new_content_title = script_title script,
                            new_content_description =
                              Some (''Auto-generated video about '' @ topic_topic topic),
                            new_content_contentType = ''video'',
                            new_content_status = Some ''ready'',
                            new_content_filePath = Some (videoPath videoResult),
                            new_content_thumbnailPath = Some (video_thumbnailPath videoResult),
                            new_content_metadata =
                              Some (JObj
                                [(''duration'', JNum (of_int (video_duration videoResult))),
                                 (''format'', JStr (video_format videoResult)),
                                 (''resolution'', JStr (video_resolution_out videoResult)),
                                 (''scriptId'', JNum (of_int (script_id script))),
                                 (''topic'', JStr (topic_topic topic)),
                                 (''automated'', JBool True)])\<rparr> s1;
                       (scheduledPost, s3) = schedule_step (clock_schedule clk) request content s2
                   in (Created \<lparr>res_topic = topic,
                                 res_artifacts = VideoArtifacts script videoResult,
                                 res_content = content,
                                 res_scheduledPost = scheduledPost\<rparr>, s3))))"

text \<open>
  In the image metadata a key whose value is \<^verbatim>\<open>undefined\<close> is left out of the object,
  as its JSON rendering leaves it out.
\<close>

definition create_image ::
  "LocalImageGenerator \<Rightarrow> Clock \<Rightarrow> CreateContentRequest \<Rightarrow> TrendingTopic \<Rightarrow>
     MemStorage \<Rightarrow> response \<times> MemStorage" where
  "create_image g clk request topic s =
     (let imagePrompt = ''Create a visually appealing image about '' @ topic_topic topic
                          @ '' that would be perfect for social media''
      in case fst (generateImage (clock_image clk)
                     \<lparr>param_prompt = imagePrompt, param_negativePrompt = None,
                      param_size = Some ''1024x1024'', param_style = Some ''artistic'',
                      param_format = None, param_seed = None, param_modelId = None\<rparr> g) of
           Inl e \<Rightarrow> (ServerError e, s)
         | Inr img \<Rightarrow>
             (let (content, s1) =
                    createContent (clock_content clk)
                      \<lparr>new_content_title = ''Image about '' @ topic_topic topic,
                       new_content_description =
                         Some (or_str (topic_description topic)
                                 (''An image about '' @ topic_topic topic)),
                       new_content_contentType = ''image'',
                       new_content_status = Some ''ready'',
                       new_content_filePath = Some (imagePath img),
                       new_content_thumbnailPath = Some (imagePath img),
                       new_content_metadata =
                         Some (JObj
                           ([(''prompt'', JStr imagePrompt), (''style'', JStr ''artistic'')]
                            @ (case image_size img of
                                 None \<Rightarrow> [] | Some v \<Rightarrow> [(''size'', JStr v)])
                            @ [(''generationTime'', JNum (generationTime img)),
                               (''topic'', JStr (topic_topic topic)),
                               (''automated'', JBool True)]))\<rparr> s;
                  (scheduledPost, s2) = schedule_step (clock_schedule clk) request content s1
              in (Created \<lparr>res_topic = topic, res_artifacts = ImageArtifacts img,
                            res_content = content, res_scheduledPost = scheduledPost\<rparr>, s2)))"

definition create_text ::
  "Services \<Rightarrow> Clock \<Rightarrow> CreateContentRequest \<Rightarrow> TrendingTopic \<Rightarrow> MemStorage \<Rightarrow>
     response \<times> MemStorage" where
  "create_text sv clk request topic s =
     (case generateContent sv (topic_topic topic) ''social media'' ''engaging'' ''general'' of
        Inl e \<Rightarrow> (ServerError e, s)
      | Inr postContent \<Rightarrow>
          (let (content, s1) =
                 createContent (clock_content clk)
                   \<lparr>new_content_title = ''Post about '' @ topic_topic topic,
                    new_content_description = Some postContent,
                    new_content_contentType = ''text'',
                    new_content_status = Some ''ready'',
                    new_content_filePath = None,
                    new_content_thumbnailPath = None,
                    new_content_metadata =
                      Some (JObj
                        [(''topic'', JStr (topic_topic topic)),
                         (''platform'', JStr ''multiple''),
                         (''contentLength'', JNum (of_nat (length postContent))),
                         (''automated'', JBool True)])\<rparr> s;
               (scheduledPost, s2) = schedule_step (clock_schedule clk) request content s1
           in (Created \<lparr>res_topic = topic, res_artifacts = TextArtifacts postContent,
                         res_content = content, res_scheduledPost = scheduledPost\<rparr>, s2)))"

definition create_content ::
  "Services \<Rightarrow> LocalImageGenerator \<Rightarrow> Clock \<Rightarrow> CreateContentRequest \<Rightarrow> MemStorage \<Rightarrow>
     response \<times> MemStorage" where
  "create_content sv g clk request s =
     (case resolve_topic request s of
        Inl message \<Rightarrow> (NotFound message, s)
      | Inr topic \<Rightarrow>
          (case (case req_contentType request of None \<Rightarrow> Video | Some c \<Rightarrow> c) of
             Video \<Rightarrow> create_video sv g clk request topic s
           | Image \<Rightarrow> create_image g clk request topic s
           | Text \<Rightarrow> create_text sv clk request topic s))"


section \<open>The trending-topic routes\<close>

text \<open>
  \<^verbatim>\<open>insertTrendingTopicSchema\<close> is derived from the table by drizzle-zod: \<open>topic\<close>,
  \<open>category\<close> and \<open>trendScore\<close> are required, \<open>description\<close> is optional and nullable.
  The body is a parsed JSON object whose keys have the column types. What the
  library checks on the number of an integer column (nothing in its early releases,
  the signed 32-bit range later) is the parameter \<open>int_column\<close>.
\<close>

record TrendingTopicBody =
  body_topic :: "string option"
  body_category :: "string option"
  body_description :: "string option option"
  body_trendScore :: "int option"

definition int32_range :: "int \<Rightarrow> bool" where
  "int32_range n = (- 2147483648 \<le> n \<and> n \<le> 2147483647)"

definition parse_insertTrendingTopic ::
  "(int \<Rightarrow> bool) \<Rightarrow> TrendingTopicBody \<Rightarrow> InsertTrendingTopic option" where
  "parse_insertTrendingTopic int_column body =
     (case (body_topic body, body_category body, body_trendScore body) of
        (Some t, Some c, Some n) \<Rightarrow>
          if int_column n then
            Some \<lparr>new_topic_topic = t, new_topic_category = c,
                  new_topic_description =
                    (case body_description body of None \<Rightarrow> None | Some d \<Rightarrow> d),
                  new_topic_trendScore = n\<rparr>
          else None
      | _ \<Rightarrow> None)"

definition parse_partialTrendingTopic ::
  "(int \<Rightarrow> bool) \<Rightarrow> TrendingTopicBody \<Rightarrow> PartialTrendingTopic option" where
  "parse_partialTrendingTopic int_column body =
     (case body_trendScore body of
        Some n \<Rightarrow>
          if int_column n then
            Some \<lparr>upd_topic_topic = body_topic body, upd_topic_category = body_category body,
                  upd_topic_description = body_description body,
                  upd_topic_trendScore = Some n\<rparr>
          else None
      | None \<Rightarrow>
          Some \<lparr>upd_topic_topic = body_topic body, upd_topic_category = body_category body,
                upd_topic_description = body_description body,
                upd_topic_trendScore = None\<rparr>)"

text \<open>Status 201 or 200 with the topic, 400 on a validation failure, 404.\<close>

datatype topic_response =
    TopicCreated TrendingTopic
  | TopicOk TrendingTopic
  | ValidationFailed
  | TopicNotFound

definition post_trending_topic ::
  "(int \<Rightarrow> bool) \<Rightarrow> int \<Rightarrow> TrendingTopicBody \<Rightarrow> MemStorage \<Rightarrow>
     topic_response \<times> MemStorage" where
  "post_trending_topic int_column now body s =
     (case parse_insertTrendingTopic int_column body of
        None \<Rightarrow> (ValidationFailed, s)
      | Some validatedData \<Rightarrow>
          (let (topic, s') = createTrendingTopic now validatedData s
           in (TopicCreated topic, s')))"

definition put_trending_topic ::
  "(int \<Rightarrow> bool) \<Rightarrow> int \<Rightarrow> TrendingTopicBody \<Rightarrow> MemStorage \<Rightarrow>
     topic_response \<times> MemStorage" where
  "put_trending_topic int_column k body s =
     (case parse_partialTrendingTopic int_column body of
        None \<Rightarrow> (ValidationFailed, s)
      | Some validatedData \<Rightarrow>
          (case updateTrendingTopic k validatedData s of
             (None, s') \<Rightarrow> (TopicNotFound, s')
           | (Some topic, s') \<Rightarrow> (TopicOk topic, s')))"


section \<open>Sequences of creates, and the identifier discipline\<close>

text \<open>
  A run of the store is a list of create calls, of any mix of the eight entity types;
  \<open>run_creates\<close> performs them in order and lists, per call, the entity type and the
  id of the record returned.
\<close>

datatype entity_kind =
  KUser | KScript | KAiConfig | KPlatform | KPlatformAccount | KContent
  | KScheduledPost | KTrendingTopic

datatype create_call =
    CreateUser InsertUser
  | CreateScript int InsertScript
  | CreateAiConfig int InsertAiConfig
  | CreatePlatform InsertPlatform
  | CreatePlatformAccount InsertPlatformAccount
  | CreateContent int InsertContent
  | CreateScheduledPost InsertScheduledPost
  | CreateTrendingTopic int InsertTrendingTopic

fun call_kind :: "create_call \<Rightarrow> entity_kind" where
  "call_kind (CreateUser _) = KUser"
| "call_kind (CreateScript _ _) = KScript"
| "call_kind (CreateAiConfig _ _) = KAiConfig"
| "call_kind (CreatePlatform _) = KPlatform"
| "call_kind (CreatePlatformAccount _) = KPlatformAccount"
| "call_kind (CreateContent _ _) = KContent"
| "call_kind (CreateScheduledPost _) = KScheduledPost"
| "call_kind (CreateTrendingTopic _ _) = KTrendingTopic"

fun run_create :: "create_call \<Rightarrow> MemStorage \<Rightarrow> int \<times> MemStorage" where
  "run_create (CreateUser ins) s = (let (e, s') = createUser ins s in (user_id e, s'))"
| "run_create (CreateScript now ins) s =
     (let (e, s') = createScript now ins s in (script_id e, s'))"
| "run_create (CreateAiConfig now ins) s =
     (let (e, s') = createAiConfig now ins s in (aic_id e, s'))"
| "run_create (CreatePlatform ins) s =
     (let (e, s') = createPlatform ins s in (platform_id e, s'))"
| "run_create (CreatePlatformAccount ins) s =
     (let (e, s') = createPlatformAccount ins s in (account_id e, s'))"
| "run_create (CreateContent now ins) s =
     (let (e, s') = createContent now ins s in (content_id e, s'))"
| "run_create (CreateScheduledPost ins) s =
     (let (e, s') = createScheduledPost ins s in (post_id e, s'))"
| "run_create (CreateTrendingTopic now ins) s =
     (let (e, s') = createTrendingTopic now ins s in (topic_id e, s'))"

fun run_creates :: "create_call list \<Rightarrow> MemStorage \<Rightarrow> (entity_kind \<times> int) list \<times> MemStorage" where
  "run_creates [] s = ([], s)"
| "run_creates (c # cs) s =
     (let (i, s1) = run_create c s;
          (ids, s2) = run_creates cs s1
      in ((call_kind c, i) # ids, s2))"

definition returned_ids :: "entity_kind \<Rightarrow> (entity_kind \<times> int) list \<Rightarrow> int list" where
  "returned_ids kind calls = map snd (filter (\<lambda>entry. fst entry = kind) calls)"

fun live_ids :: "entity_kind \<Rightarrow> MemStorage \<Rightarrow> int list" where
  "live_ids KUser s = map user_id (map_values (users s))"
| "live_ids KScript s = map script_id (map_values (scripts s))"
| "live_ids KAiConfig s = map aic_id (map_values (aiConfigs s))"
| "live_ids KPlatform s = map platform_id (map_values (platforms s))"
| "live_ids KPlatformAccount s = map account_id (map_values (platformAccounts s))"
| "live_ids KContent s = map content_id (map_values (contents s))"
| "live_ids KScheduledPost s = map post_id (map_values (scheduledPosts s))"
| "live_ids KTrendingTopic s = map topic_id (map_values (trendingTopics s))"

fun next_id :: "entity_kind \<Rightarrow> MemStorage \<Rightarrow> int" where
  "next_id KUser s = userId s"
| "next_id KScript s = scriptId s"
| "next_id KAiConfig s = aiConfigId s"
| "next_id KPlatform s = platformId s"
| "next_id KPlatformAccount s = accountId s"
| "next_id KContent s = contentId s"
| "next_id KScheduledPost s = postId s"
| "next_id KTrendingTopic s = topicId s"

text \<open>
  The discipline the store keeps: in every map the keys are distinct, each record sits
  under its own id, and every id in use is below the counter of its type.
\<close>

definition table_ok :: "('v \<Rightarrow> int) \<Rightarrow> int \<Rightarrow> 'v jsmap \<Rightarrow> bool" where
  "table_ok ident next m =
     (distinct (map fst m) \<and> (\<forall>entry \<in> set m. ident (snd entry) = fst entry \<and> fst entry < next))"

definition store_ok :: "MemStorage \<Rightarrow> bool" where
  "store_ok s =
     (table_ok user_id (userId s) (users s) \<and>
      table_ok script_id (scriptId s) (scripts s) \<and>
      table_ok aic_id (aiConfigId s) (aiConfigs s) \<and>
      table_ok platform_id (platformId s) (platforms s) \<and>
      table_ok account_id (accountId s) (platformAccounts s) \<and>
      table_ok content_id (contentId s) (contents s) \<and>
      table_ok post_id (postId s) (scheduledPosts s) \<and>
      table_ok topic_id (topicId s) (trendingTopics s))"


section \<open>Shallow merge, as the update contract words it\<close>

text \<open>
  The contract of an update, field by field: a field the payload carries takes the
  payload's value, a field the payload does not carry keeps its value. \<open>takes\<close> says
  this of one field; the relations below say it of every field of a record, the id and
  the timestamp included, which no payload carries.
\<close>

definition takes :: "'a option \<Rightarrow> 'a \<Rightarrow> 'a \<Rightarrow> bool" where
  "takes payload old new = (case payload of None \<Rightarrow> new = old | Some v \<Rightarrow> new = v)"

definition shallow_merge_Script :: "Script \<Rightarrow> PartialScript \<Rightarrow> Script \<Rightarrow> bool" where
  "shallow_merge_Script e u e' =
     (script_id e' = script_id e \<and>
      script_createdAt e' = script_createdAt e \<and>
      takes (upd_script_title u) (script_title e) (script_title e') \<and>
      takes (upd_script_topic u) (script_topic e) (script_topic e') \<and>
      takes (upd_script_format u) (script_format e) (script_format e') \<and>
      takes (upd_script_content u) (script_content e) (script_content e') \<and>
      takes (upd_script_duration u) (script_duration e) (script_duration e') \<and>
      takes (upd_script_tone u) (script_tone e) (script_tone e') \<and>
      takes (upd_script_targetAudience u) (script_targetAudience e) (script_targetAudience e') \<and>
      takes (upd_script_audioPath u) (script_audioPath e) (script_audioPath e') \<and>
      takes (upd_script_status u) (script_status e) (script_status e'))"

text \<open>For an AI configuration the relation leaves \<open>lastUpdated\<close> to the caller.\<close>

definition shallow_merge_AiConfig_fields :: "AiConfig \<Rightarrow> PartialAiConfig \<Rightarrow> AiConfig \<Rightarrow> bool" where
  "shallow_merge_AiConfig_fields e u e' =
     (aic_id e' = aic_id e \<and>
      takes (upd_aic_name u) (aic_name e) (aic_name e') \<and>
      takes (upd_aic_modelType u) (aic_modelType e) (aic_modelType e') \<and>
      takes (upd_aic_modelName u) (aic_modelName e) (aic_modelName e') \<and>
      takes (upd_aic_active u) (aic_active e) (aic_active e') \<and>
      takes (upd_aic_settings u) (aic_settings e) (aic_settings e') \<and>
      takes (upd_aic_capabilities u) (aic_capabilities e) (aic_capabilities e') \<and>
      takes (upd_aic_downloadStatus u) (aic_downloadStatus e) (aic_downloadStatus e'))"

definition shallow_merge_AiConfig :: "AiConfig \<Rightarrow> PartialAiConfig \<Rightarrow> AiConfig \<Rightarrow> bool" where
  "shallow_merge_AiConfig e u e' =
     (shallow_merge_AiConfig_fields e u e' \<and> aic_lastUpdated e' = aic_lastUpdated e)"

definition shallow_merge_Platform :: "Platform \<Rightarrow> PartialPlatform \<Rightarrow> Platform \<Rightarrow> bool" where
  "shallow_merge_Platform e u e' =
     (platform_id e' = platform_id e \<and>
      takes (upd_platform_name u) (platform_name e) (platform_name e') \<and>
      takes (upd_platform_icon u) (platform_icon e) (platform_icon e') \<and>
      takes (upd_platform_active u) (platform_active e) (platform_active e'))"

definition shallow_merge_PlatformAccount ::
  "PlatformAccount \<Rightarrow> PartialPlatformAccount \<Rightarrow> PlatformAccount \<Rightarrow> bool" where
  "shallow_merge_PlatformAccount e u e' =
     (account_id e' = account_id e \<and>
      takes (upd_account_platformId u) (account_platformId e) (account_platformId e') \<and>
      takes (upd_account_name u) (account_name e) (account_name e') \<and>
      takes (upd_account_username u) (account_username e) (account_username e') \<and>
      takes (upd_account_accessToken u) (account_accessToken e) (account_accessToken e') \<and>
      takes (upd_account_refreshToken u) (account_refreshToken e) (account_refreshToken e') \<and>
      takes (upd_account_tokenExpiry u) (account_tokenExpiry e) (account_tokenExpiry e') \<and>
      takes (upd_account_followerCount u) (account_followerCount e) (account_followerCount e') \<and>
      takes (upd_account_active u) (account_active e) (account_active e') \<and>
      takes (upd_account_metadata u) (account_metadata e) (account_metadata e'))"

definition shallow_merge_Content :: "Content \<Rightarrow> PartialContent \<Rightarrow> Content \<Rightarrow> bool" where
  "shallow_merge_Content e u e' =
     (content_id e' = content_id e \<and>
      content_createdAt e' = content_createdAt e \<and>
      takes (upd_content_title u) (content_title e) (content_title e') \<and>
      takes (upd_content_description u) (content_description e) (content_description e') \<and>
      takes (upd_content_contentType u) (content_contentType e) (content_contentType e') \<and>
      takes (upd_content_status u) (content_status e) (content_status e') \<and>
      takes (upd_content_filePath u) (content_filePath e) (content_filePath e') \<and>
      takes (upd_content_thumbnailPath u) (content_thumbnailPath e) (content_thumbnailPath e') \<and>
      takes (upd_content_metadata u) (content_metadata e) (content_metadata e'))"

definition shallow_merge_ScheduledPost ::
  "ScheduledPost \<Rightarrow> PartialScheduledPost \<Rightarrow> ScheduledPost \<Rightarrow> bool" where
  "shallow_merge_ScheduledPost e u e' =
     (post_id e' = post_id e \<and>
      post_postId e' = post_postId e \<and>
      post_error e' = post_error e \<and>
      takes (upd_post_contentId u) (post_contentId e) (post_contentId e') \<and>
      takes (upd_post_platformAccountId u) (post_platformAccountId e)
        (post_platformAccountId e') \<and>
      takes (upd_post_scheduledTime u) (post_scheduledTime e) (post_scheduledTime e') \<and>
      takes (upd_post_status u) (post_status e) (post_status e'))"

definition shallow_merge_TrendingTopic ::
  "TrendingTopic \<Rightarrow> PartialTrendingTopic \<Rightarrow> TrendingTopic \<Rightarrow> bool" where
  "shallow_merge_TrendingTopic e u e' =
     (topic_id e' = topic_id e \<and>
      topic_discoveredAt e' = topic_discoveredAt e \<and>
      takes (upd_topic_topic u) (topic_topic e) (topic_topic e') \<and>
      takes (upd_topic_category u) (topic_category e) (topic_category e') \<and>
      takes (upd_topic_description u) (topic_description e) (topic_description e') \<and>
      takes (upd_topic_trendScore u) (topic_trendScore e) (topic_trendScore e'))"


section \<open>Example data\<close>

text \<open>
  A store filled through its own create operations: one script, one AI configuration,
  one platform with a single, inactive account, one content item with a post scheduled
  for it, and three trending topics with the scores 78, 65 and 92.
\<close>

definition example_topic :: "string \<Rightarrow> int \<Rightarrow> InsertTrendingTopic" where
  "example_topic name score =
     \<lparr>new_topic_topic = name, new_topic_category = ''Tech'', new_topic_description = None,
      new_topic_trendScore = score\<rparr>"

definition stored_topic :: "int \<Rightarrow> string \<Rightarrow> int \<Rightarrow> TrendingTopic" where
  "stored_topic k name score =
     \<lparr>topic_id = k, topic_topic = name, topic_category = ''Tech'', topic_description = None,
      topic_trendScore = score, topic_discoveredAt = 100\<rparr>"

definition example_calls :: "create_call list" where
  "example_calls =
     [CreateScript 100
        \<lparr>new_script_title = ''5 AI Tools Every Creator Needs'', new_script_topic = ''AI tools'',
         new_script_format = ''short'', new_script_content = ''Did you know'',
         new_script_duration = Some 60, new_script_tone = Some ''enthusiastic'',
         new_script_targetAudience = None, new_script_audioPath = None,
         new_script_status = None\<rparr>,
      CreateAiConfig 100
        \<lparr>new_aic_name = ''Local TTS'', new_aic_modelType = ''tts'',
         new_aic_modelName = ''professional-male'', new_aic_active = None,
         new_aic_settings = None, new_aic_capabilities = None,
         new_aic_downloadStatus = Some ''available''\<rparr>,
      CreatePlatform
        \<lparr>new_platform_name = ''YouTube'', new_platform_icon = ''smart_display'',
         new_platform_active = None\<rparr>,
      CreatePlatformAccount
        \<lparr>new_account_platformId = 1, new_account_name = ''Tech Channel'',
         new_account_username = ''TechChannel'', new_account_accessToken = None,
         new_account_refreshToken = None, new_account_tokenExpiry = None,
         new_account_followerCount = Some 15200, new_account_active = Some False,
         new_account_metadata = None\<rparr>,
      CreateContent 100
        \<lparr>new_content_title = ''Top 10 AI Tools'', new_content_description = None,
         new_content_contentType = ''video'', new_content_status = Some ''published'',
         new_content_filePath = Some ''/content/videos/top-10-ai-tools.mp4'',
         new_content_thumbnailPath = None, new_content_metadata = None\<rparr>,
      CreateScheduledPost
        \<lparr>new_post_contentId = 1, new_post_platformAccountId = 1,
         new_post_scheduledTime = 9000, new_post_status = None\<rparr>,
      CreateTrendingTopic 100 (example_topic ''Open Source AI Models'' 78),
      CreateTrendingTopic 100 (example_topic ''Self-Hosted Content Creation'' 65),
      CreateTrendingTopic 100 (example_topic ''Voice Generation Technology'' 92)]"

definition example_store :: MemStorage where
  "example_store = snd (run_creates example_calls new_MemStorage)"

text \<open>Two topics with the same score.\<close>

definition tied_store :: MemStorage where
  "tied_store =
     snd (run_creates
            [CreateTrendingTopic 100 (example_topic ''First'' 50),
             CreateTrendingTopic 100 (example_topic ''Second'' 50)] new_MemStorage)"

definition example_services :: Services where
  "example_services =
     \<lparr>generateScript = (\<lambda>topic fmt minutes tone audience. Inr (''# INTRODUCTION '' @ topic)),
      generateContent = (\<lambda>topic kind tone audience. Inr (''Did you know that '' @ topic)),
      generateVideo =
        (\<lambda>request.
           Inr \<lparr>videoPath = ''/content/videos/video_1_2500.mp4'',
                video_thumbnailPath = ''/content/thumbnails/thumb_2_2400.png'',
                video_duration = 8, video_format = ''mp4'',
                video_resolution_out = video_resolution request\<rparr>)\<rparr>"

definition example_clock :: Clock where
  "example_clock =
     \<lparr>clock_script = 1000, clock_image = 2000, clock_content = 3000, clock_schedule = 4000\<rparr>"

definition example_request :: "contentType option \<Rightarrow> CreateContentRequest" where
  "example_request kind =
     \<lparr>req_topicId = None, req_platformId = Some 1, req_contentType = kind,
      req_scheduleImmediately = Some True\<rparr>"



text \<open>Update payloads: one that carries nothing, and one per entity type.\<close>

definition empty_config_update :: PartialAiConfig where
  "empty_config_update =
     \<lparr>upd_aic_name = None, upd_aic_modelType = None, upd_aic_modelName = None,
      upd_aic_active = None, upd_aic_settings = None, upd_aic_capabilities = None,
      upd_aic_downloadStatus = None\<rparr>"

definition example_config :: AiConfig where
  "example_config =
     \<lparr>aic_id = 1, aic_name = ''Local TTS'', aic_modelType = ''tts'',
      aic_modelName = ''professional-male'', aic_active = True, aic_settings = JObj [],
      aic_capabilities = JObj [], aic_lastUpdated = 100,
      aic_downloadStatus = Some ''available''\<rparr>"

definition example_script_update :: PartialScript where
  "example_script_update =
     \<lparr>upd_script_title = None, upd_script_topic = None, upd_script_format = None,
      upd_script_content = None, upd_script_duration = None, upd_script_tone = None,
      upd_script_targetAudience = None,
      upd_script_audioPath = Some (Some ''/content/audio/tts_1_1700.mp3''),
      upd_script_status = Some ''finalized''\<rparr>"

definition example_platform_update :: PartialPlatform where
  "example_platform_update =
     \<lparr>upd_platform_name = None, upd_platform_icon = None, upd_platform_active = Some False\<rparr>"

definition example_account_update :: PartialPlatformAccount where
  "example_account_update =
     \<lparr>upd_account_platformId = None, upd_account_name = None, upd_account_username = None,
      upd_account_accessToken = None, upd_account_refreshToken = None,
      upd_account_tokenExpiry = None, upd_account_followerCount = Some None,
      upd_account_active = Some True, upd_account_metadata = None\<rparr>"

definition example_content_update :: PartialContent where
  "example_content_update =
     \<lparr>upd_content_title = None, upd_content_description = Some (Some ''A guide''),
      upd_content_contentType = None, upd_content_status = Some ''draft'',
      upd_content_filePath = None, upd_content_thumbnailPath = None,
      upd_content_metadata = None\<rparr>"

definition example_post_update :: PartialScheduledPost where
  "example_post_update =
     \<lparr>upd_post_contentId = None, upd_post_platformAccountId = None,
      upd_post_scheduledTime = Some 12000, upd_post_status = None\<rparr>"

definition example_topic_update :: PartialTrendingTopic where
  "example_topic_update =
     \<lparr>upd_topic_topic = None, upd_topic_category = None, upd_topic_description = None,
      upd_topic_trendScore = Some 80\<rparr>"

text \<open>No settings passed to the speech service, and two request bodies for a topic.\<close>

definition no_settings :: PartialTTSSettings where
  "no_settings =
     \<lparr>upd_speed = None, upd_pitch = None, upd_volume = None, upd_format = None,
      upd_sampleRate = None\<rparr>"

definition body_score_150 :: TrendingTopicBody where
  "body_score_150 =
     \<lparr>body_topic = Some ''Test'', body_category = Some ''Tech'', body_description = None,
      body_trendScore = Some 150\<rparr>"

definition body_score_0 :: TrendingTopicBody where
  "body_score_0 =
     \<lparr>body_topic = None, body_category = None, body_description = None,
      body_trendScore = Some 0\<rparr>"






section \<open>Properties\<close>

subsection \<open>Sorting and slicing\<close>

lemma set_insert_cmp: "set (insert_cmp cmp x xs) = insert x (set xs)"
  by (induction xs) auto

lemma set_sort_cmp: "set (sort_cmp cmp xs) = set xs"
  by (induction xs) (auto simp: sort_cmp_def set_insert_cmp)

lemma length_insert_cmp: "length (insert_cmp cmp x xs) = Suc (length xs)"
  by (induction xs) auto

lemma length_sort_cmp: "length (sort_cmp cmp xs) = length xs"
  by (induction xs) (auto simp: sort_cmp_def length_insert_cmp)

text \<open>A comparator that subtracts an integer key sorts by that key, ascending.\<close>

lemma sorted_insert_key:
  "sorted (map f xs) \<Longrightarrow> sorted (map f (insert_cmp (\<lambda>a b. (f a :: int) - f b) x xs))"
proof (induction xs)
  case Nil
  then show ?case by simp
next
  case (Cons y ys)
  show ?case
  proof (cases "f x - f y \<le> 0")
    case True
    with Cons.prems show ?thesis by auto
  next
    case False
    with Cons show ?thesis by (auto simp: set_insert_cmp)
  qed
qed

lemma sorted_sort_key: "sorted (map f (sort_cmp (\<lambda>a b. (f a :: int) - f b) xs))"
  by (induction xs) (simp_all add: sort_cmp_def sorted_insert_key)

lemma sort_cmp_desc_eq:
  "sort_cmp (\<lambda>a b. (f b :: int) - f a) xs = sort_cmp (\<lambda>a b. (- f a) - (- f b)) xs"
  by simp

lemma sorted_sort_key_desc:
  "sorted_wrt (\<lambda>a b. f a \<ge> f b) (sort_cmp (\<lambda>a b. (f b :: int) - f a) xs)"
proof -
  have "sorted (map (\<lambda>a. - f a) (sort_cmp (\<lambda>a b. (- f a) - (- f b)) xs))"
    by (rule sorted_sort_key)
  then show ?thesis
    by (simp add: sorted_map)
qed

lemma slice0_take: "\<exists>k. slice0 xs n = take k xs"
  by (auto simp: slice0_def)

lemma set_slice0: "set (slice0 xs n) \<subseteq> set xs"
  by (auto simp: slice0_def dest: in_set_takeD)



lemma sorted_wrt_slice0: "sorted_wrt P xs \<Longrightarrow> sorted_wrt P (slice0 xs n)"
  by (auto simp: slice0_def sorted_wrt_take)

text \<open>
  In a list sorted in descending order, whatever beats a member of a prefix is in that
  prefix.
\<close>

lemma prefix_complete:
  assumes "sorted_wrt (\<lambda>a b. (f a :: int) \<ge> f b) xs"
    and "r \<in> set (take k xs)" and "t \<in> set xs" and "f t > f r"
  shows "t \<in> set (take k xs)"
proof (rule ccontr)
  assume "t \<notin> set (take k xs)"
  with assms(3) have "t \<in> set (drop k xs)"
    by (metis Un_iff append_take_drop_id set_append)
  moreover from assms(1) have "sorted_wrt (\<lambda>a b. f a \<ge> f b) (take k xs @ drop k xs)"
    by simp
  ultimately have "f r \<ge> f t"
    using assms(2) unfolding sorted_wrt_append by blast
  with assms(4) show False by simp
qed

subsection \<open>The example stores, evaluated\<close>

lemmas create_defs =
  createUser_def createScript_def createAiConfig_def createPlatform_def
  createPlatformAccount_def createContent_def createScheduledPost_def createTrendingTopic_def

lemmas js_defs = or_str_def or_null_str_def or_null_num_def or_obj_def spread_def

lemma tied_store_topics:
  "trendingTopics tied_store =
     [(1, stored_topic 1 ''First'' 50), (2, stored_topic 2 ''Second'' 50)]"
  by (simp add: tied_store_def new_MemStorage_def create_defs js_defs example_topic_def
      stored_topic_def Let_def)

lemma example_store_topics:
  "trendingTopics example_store =
     [(1, stored_topic 1 ''Open Source AI Models'' 78),
      (2, stored_topic 2 ''Self-Hosted Content Creation'' 65),
      (3, stored_topic 3 ''Voice Generation Technology'' 92)]"
  by (simp add: example_store_def example_calls_def new_MemStorage_def create_defs js_defs
      example_topic_def stored_topic_def Let_def)

lemma example_store_posts:
  "scheduledPosts example_store =
     [(1, \<lparr>post_id = 1, post_contentId = 1, post_platformAccountId = 1,
            post_scheduledTime = 9000, post_status = ''pending'', post_postId = None,
            post_error = None\<rparr>)]"
  by (simp add: example_store_def example_calls_def new_MemStorage_def create_defs js_defs
      example_topic_def Let_def)




lemma top_of_tied_store:
  "getTopTrendingTopics tied_store 1 = [stored_topic 1 ''First'' 50]"
  by (simp add: getTopTrendingTopics_def tied_store_topics map_values_def sort_cmp_def
      slice0_def stored_topic_def)

lemma top_two_of_example_store:
  "getTopTrendingTopics example_store 2 =
     [stored_topic 3 ''Voice Generation Technology'' 92,
      stored_topic 1 ''Open Source AI Models'' 78]"
  by (simp add: getTopTrendingTopics_def example_store_topics map_values_def sort_cmp_def
      slice0_def stored_topic_def)

lemma example_store_eq:
  "example_store =
     \<lparr>users = [],
      scripts =
        [(1, \<lparr>script_id = 1, script_title = ''5 AI Tools Every Creator Needs'',
               script_topic = ''AI tools'', script_format = ''short'',
               script_content = ''Did you know'', script_duration = Some 60,
               script_tone = Some ''enthusiastic'', script_targetAudience = None,
               script_createdAt = 100, script_audioPath = None, script_status = ''draft''\<rparr>)],
      aiConfigs =
        [(1, \<lparr>aic_id = 1, aic_name = ''Local TTS'', aic_modelType = ''tts'',
               aic_modelName = ''professional-male'', aic_active = True,
               aic_settings = JObj [], aic_capabilities = JObj [], aic_lastUpdated = 100,
               aic_downloadStatus = Some ''available''\<rparr>)],
      platforms =
        [(1, \<lparr>platform_id = 1, platform_name = ''YouTube'',
               platform_icon = ''smart_display'', platform_active = True\<rparr>)],
      platformAccounts =
        [(1, \<lparr>account_id = 1, account_platformId = 1, account_name = ''Tech Channel'',
               account_username = ''TechChannel'', account_accessToken = None,
               account_refreshToken = None, account_tokenExpiry = None,
               account_followerCount = Some 15200, account_active = False,
               account_metadata = JObj []\<rparr>)],
      contents =
        [(1, \<lparr>content_id = 1, content_title = ''Top 10 AI Tools'',
               content_description = None, content_contentType = ''video'',
               content_status = ''published'',
               content_filePath = Some ''/content/videos/top-10-ai-tools.mp4'',
               content_thumbnailPath = None, content_metadata = JObj [],
               content_createdAt = 100\<rparr>)],
      scheduledPosts =
        [(1, \<lparr>post_id = 1, post_contentId = 1, post_platformAccountId = 1,
               post_scheduledTime = 9000, post_status = ''pending'', post_postId = None,
               post_error = None\<rparr>)],
      trendingTopics =
        [(1, stored_topic 1 ''Open Source AI Models'' 78),
         (2, stored_topic 2 ''Self-Hosted Content Creation'' 65),
         (3, stored_topic 3 ''Voice Generation Technology'' 92)],
      userId = 1, scriptId = 2, aiConfigId = 2, platformId = 2, accountId = 2,
      contentId = 2, postId = 2, topicId = 4\<rparr>"
  by (simp add: example_store_def example_calls_def new_MemStorage_def create_defs js_defs
      example_topic_def stored_topic_def Let_def)

lemma top_one_of_example_store:
  "getTopTrendingTopics example_store 1 = [stored_topic 3 ''Voice Generation Technology'' 92]"
  by (simp add: getTopTrendingTopics_def example_store_topics map_values_def sort_cmp_def
      slice0_def stored_topic_def)

lemma example_request_fields:
  "req_topicId (example_request kind) = None"
  "req_platformId (example_request kind) = Some 1"
  "req_contentType (example_request kind) = kind"
  "req_scheduleImmediately (example_request kind) = Some True"
  by (simp_all add: example_request_def)

lemma resolve_example:
  "resolve_topic (example_request kind) example_store
     = Inr (stored_topic 3 ''Voice Generation Technology'' 92)"
  by (simp add: resolve_topic_def example_request_fields top_topic_def top_one_of_example_store)

lemma text_run_succeeds:
  "succeeded (fst (create_content example_services new_LocalImageGenerator example_clock
                     (example_request (Some Text)) example_store))"
  by (simp add: create_content_def resolve_example example_request_fields create_text_def
      example_services_def split_def Let_def)

lemma image_run_succeeds:
  "succeeded (fst (create_content example_services new_LocalImageGenerator example_clock
                     (example_request (Some Image)) example_store))"
  by (simp add: create_content_def resolve_example example_request_fields create_image_def
      generateImage_def new_LocalImageGenerator_def or_str_def get_prop_def availableModels_def
      split_def Let_def)

lemma video_run_succeeds:
  "succeeded (fst (create_content example_services new_LocalImageGenerator example_clock
                     (example_request (Some Video)) example_store))"
  by (simp add: create_content_def resolve_example example_request_fields create_video_def
      example_services_def split_def Let_def)

lemma succeededE:
  assumes "succeeded (fst run)"
  obtains r s' where "run = (Created r, s')"
  using assms by (cases run; cases "fst run") auto




lemma example_log:
  "returned_ids KTrendingTopic (fst (run_creates example_calls new_MemStorage)) = [1, 2, 3]"
  by (simp add: returned_ids_def example_calls_def new_MemStorage_def create_defs js_defs
      example_topic_def Let_def)

lemma example_gets:
  "getScript example_store 1 \<noteq> None" "getAiConfig example_store 1 = Some example_config"
  "getPlatform example_store 1 \<noteq> None" "getPlatformAccount example_store 1 \<noteq> None"
  "getContent example_store 1 \<noteq> None" "getScheduledPost example_store 1 \<noteq> None"
  "getTrendingTopic example_store 1 = Some (stored_topic 1 ''Open Source AI Models'' 78)"
  by (simp_all add: getScript_def getAiConfig_def getPlatform_def getPlatformAccount_def
      getContent_def getScheduledPost_def getTrendingTopic_def map_get_def example_store_eq
      example_config_def)

lemma show_int_examples: "show_int 1 = ''1''" "show_int 1700 = ''1700''" "show_int 2000 = ''2000''"
  by code_simp+

lemma floor_example: "\<lfloor>(1601 / 2 :: rat)\<rfloor> = 800"
  by code_simp

subsection \<open>Top trending topics\<close>

lemma getTopTrendingTopics_sorted:
  "sorted_wrt (\<lambda>a b. topic_trendScore a \<ge> topic_trendScore b) (getTopTrendingTopics s n)"
  unfolding getTopTrendingTopics_def by (rule sorted_wrt_slice0) (rule sorted_sort_key_desc)

text \<open>
  Claim C4, as the code has it. For every store and every limit \<open>n\<close>,
  \<open>getTopTrendingTopics\<close> returns stored topics in descending order of \<open>trendScore\<close>, and
  every stored topic whose score is strictly greater than the score of a returned
  topic (the \<open>n\<close>-th one in particular) is returned too. A topic that only ties with the
  last returned one may be cut off by the limit.
\<close>

theorem getTopTrendingTopics_sorted_prefix:
  "sorted_wrt (\<lambda>a b. topic_trendScore a \<ge> topic_trendScore b) (getTopTrendingTopics s n) \<and>
   set (getTopTrendingTopics s n) \<subseteq> set (getTrendingTopics s) \<and>
   (\<forall>r \<in> set (getTopTrendingTopics s n). \<forall>t \<in> set (getTrendingTopics s).
      topic_trendScore t > topic_trendScore r \<longrightarrow> t \<in> set (getTopTrendingTopics s n))"
proof (intro conjI ballI impI)
  show "sorted_wrt (\<lambda>a b. topic_trendScore a \<ge> topic_trendScore b) (getTopTrendingTopics s n)"
    by (rule getTopTrendingTopics_sorted)
next
  show "set (getTopTrendingTopics s n) \<subseteq> set (getTrendingTopics s)"
    using set_slice0 [of "sort_cmp (\<lambda>a b. topic_trendScore b - topic_trendScore a)
                            (map_values (trendingTopics s))" n]
    by (simp add: getTopTrendingTopics_def getTrendingTopics_def set_sort_cmp)
next
  fix r t
  assume r: "r \<in> set (getTopTrendingTopics s n)" and t: "t \<in> set (getTrendingTopics s)"
    and gt: "topic_trendScore t > topic_trendScore r"
  let ?sorted = "sort_cmp (\<lambda>a b. topic_trendScore b - topic_trendScore a)
                   (map_values (trendingTopics s))"
  obtain k where k: "getTopTrendingTopics s n = take k ?sorted"
    using slice0_take [of ?sorted n] by (auto simp: getTopTrendingTopics_def)
  have ts: "t \<in> set ?sorted"
    using t by (simp add: set_sort_cmp getTrendingTopics_def)
  have rs: "r \<in> set (take k ?sorted)"
    using r by (simp add: k)
  have "t \<in> set (take k ?sorted)"
    by (rule prefix_complete [OF sorted_sort_key_desc rs ts gt])
  then show "t \<in> set (getTopTrendingTopics s n)"
    by (simp add: k)
qed

text \<open>
  At the example store with \<open>n = 2\<close>: the topic scoring 78 is returned, the stored topic
  scoring 92 beats it, so the theorem puts the latter in the result.
\<close>

theorem getTopTrendingTopics_sorted_prefix_witness:
  "stored_topic 1 ''Open Source AI Models'' 78 \<in> set (getTopTrendingTopics example_store 2) \<and>
   stored_topic 3 ''Voice Generation Technology'' 92 \<in> set (getTrendingTopics example_store) \<and>
   topic_trendScore (stored_topic 1 ''Open Source AI Models'' 78)
     < topic_trendScore (stored_topic 3 ''Voice Generation Technology'' 92) \<and>
   stored_topic 3 ''Voice Generation Technology'' 92 \<in> set (getTopTrendingTopics example_store 2)"
proof -
  have r: "stored_topic 1 ''Open Source AI Models'' 78 \<in> set (getTopTrendingTopics example_store 2)"
    by (simp add: top_two_of_example_store)
  have t: "stored_topic 3 ''Voice Generation Technology'' 92 \<in> set (getTrendingTopics example_store)"
    by (simp add: getTrendingTopics_def example_store_topics map_values_def)
  have gt: "topic_trendScore (stored_topic 1 ''Open Source AI Models'' 78)
              < topic_trendScore (stored_topic 3 ''Voice Generation Technology'' 92)"
    by (simp add: stored_topic_def)
  from getTopTrendingTopics_sorted_prefix [of example_store 2] r t gt
  have "stored_topic 3 ''Voice Generation Technology'' 92 \<in> set (getTopTrendingTopics example_store 2)"
    by blast
  with r t gt show ?thesis by blast
qed

text \<open>
  Claim C4 as stated fails on a tie: with two topics of score 50 and \<open>n = 1\<close> the second
  topic scores no less than the first (and only) returned one, and is not returned.
\<close>

theorem getTopTrendingTopics_tie_counterexample:
  "getTopTrendingTopics tied_store 1 = [stored_topic 1 ''First'' 50] \<and>
   stored_topic 2 ''Second'' 50 \<in> set (getTrendingTopics tied_store) \<and>
   topic_trendScore (stored_topic 2 ''Second'' 50)
     \<ge> topic_trendScore (stored_topic 1 ''First'' 50) \<and>
   stored_topic 2 ''Second'' 50 \<notin> set (getTopTrendingTopics tied_store 1)"
  by (simp add: top_of_tied_store getTrendingTopics_def tied_store_topics map_values_def
      stored_topic_def)

subsection \<open>Upcoming scheduled posts\<close>




subsection \<open>The map model and the identifier discipline\<close>

lemma map_get_set_same: "map_get (map_set m k v) k = Some v"
  by (induction m) (auto simp: map_get_def)

lemma map_set_fresh: "k \<notin> fst ` set m \<Longrightarrow> map_set m k v = m @ [(k, v)]"
  by (induction m) auto

lemma map_set_keys: "map_of m k = Some e \<Longrightarrow> map fst (map_set m k v) = map fst m"
  by (induction m) (auto split: if_splits)

lemma set_map_set: "set (map_set m k v) \<subseteq> insert (k, v) (set m)"
  by (induction m) (auto split: if_splits)

lemma table_ok_create:
  assumes "table_ok ident n m" and "ident v = n"
  shows "table_ok ident (n + 1) (map_set m n v)"
proof -
  have fresh: "n \<notin> fst ` set m"
    using assms(1) by (auto simp: table_ok_def)
  show ?thesis
    using assms fresh by (auto simp: table_ok_def map_set_fresh)
qed

lemma table_ok_counter: "table_ok ident n m \<Longrightarrow> n \<le> n' \<Longrightarrow> table_ok ident n' m"
  by (fastforce simp: table_ok_def)

lemma table_ok_update:
  assumes "table_ok ident n m" and "map_get m k = Some e" and "ident v = k"
  shows "table_ok ident n (map_set m k v)"
proof -
  have keys: "map fst (map_set m k v) = map fst m"
    using assms(2) by (simp add: map_get_def map_set_keys)
  have "k < n"
    using assms(1,2) by (auto simp: table_ok_def map_get_def dest!: map_of_SomeD)
  then show ?thesis
    using assms(1,3) set_map_set [of m k v] by (auto simp: table_ok_def keys)
qed

lemma table_ok_delete: "table_ok ident n m \<Longrightarrow> table_ok ident n (snd (map_delete m k))"
  by (auto simp: table_ok_def map_delete_def distinct_map_filter)

lemma table_ok_ids: "table_ok ident n m \<Longrightarrow> map ident (map_values m) = map fst m"
  by (auto simp: table_ok_def map_values_def)

lemma table_ok_distinct: "table_ok ident n m \<Longrightarrow> distinct (map ident (map_values m))"
  by (simp add: table_ok_ids) (simp add: table_ok_def)

lemma store_ok_new: "store_ok new_MemStorage"
  by (simp add: store_ok_def new_MemStorage_def table_ok_def)

lemma store_ok_distinct: "store_ok s \<Longrightarrow> distinct (live_ids kind s)"
  by (cases kind) (auto simp: store_ok_def intro: table_ok_distinct)

lemma run_create_ok:
  assumes "store_ok s" and "run_create c s = (i, s')"
  shows "store_ok s'"
  using assms
  by (cases c) (auto simp: store_ok_def create_defs Let_def intro!: table_ok_create)

lemma run_create_id:
  assumes "run_create c s = (i, s')"
  shows "i = next_id (call_kind c) s"
    and "next_id kind s' = (if kind = call_kind c then next_id kind s + 1 else next_id kind s)"
  using assms
  by (cases c; cases kind; auto simp: create_defs Let_def)+

lemma run_creates_ok: "store_ok s \<Longrightarrow> store_ok (snd (run_creates cs s))"
proof (induction cs arbitrary: s)
  case Nil
  then show ?case by simp
next
  case (Cons c cs)
  obtain i s1 where step: "run_create c s = (i, s1)"
    by (cases "run_create c s")
  have "store_ok s1"
    using Cons.prems step by (rule run_create_ok)
  then have "store_ok (snd (run_creates cs s1))"
    by (rule Cons.IH)
  then show ?case
    by (simp add: step split_def Let_def)
qed

lemma run_creates_ids:
  "next_id kind s \<le> next_id kind (snd (run_creates cs s)) \<and>
   (\<forall>i \<in> set (returned_ids kind (fst (run_creates cs s))).
      next_id kind s \<le> i \<and> i < next_id kind (snd (run_creates cs s))) \<and>
   sorted_wrt (<) (returned_ids kind (fst (run_creates cs s)))"
proof (induction cs arbitrary: s)
  case Nil
  then show ?case by (simp add: returned_ids_def)
next
  case (Cons c cs)
  obtain i s1 where step: "run_create c s = (i, s1)"
    by (cases "run_create c s")
  note id = run_create_id [OF step]
  note IH = Cons.IH [of s1]
  have rest: "fst (run_creates (c # cs) s) = (call_kind c, i) # fst (run_creates cs s1)"
    and final: "snd (run_creates (c # cs) s) = snd (run_creates cs s1)"
    by (simp_all add: step split_def Let_def)
  show ?case
  proof (cases "kind = call_kind c")
    case True
    then have "returned_ids kind (fst (run_creates (c # cs) s))
                 = i # returned_ids kind (fst (run_creates cs s1))"
      by (simp add: rest returned_ids_def del: run_creates.simps)
    moreover have "i = next_id kind s" and "next_id kind s1 = next_id kind s + 1"
      using id True by simp_all
    ultimately show ?thesis
      using IH by (auto simp: final simp del: run_creates.simps)
  next
    case False
    then have "returned_ids kind (fst (run_creates (c # cs) s))
                 = returned_ids kind (fst (run_creates cs s1))"
      by (simp add: rest returned_ids_def del: run_creates.simps)
    moreover have "next_id kind s1 = next_id kind s"
      using id False by simp
    ultimately show ?thesis
      using IH by (auto simp: final simp del: run_creates.simps)
  qed
qed

lemmas seed_defs =
  seed_aiConfig_def seed_script_def seed_platform_def seed_account_def seed_content_def
  seed_post_def seed_topic_def

lemma storage_counters:
  "userId (storage now) = 1" "scriptId (storage now) = 3" "aiConfigId (storage now) = 4"
  "platformId (storage now) = 4" "accountId (storage now) = 4" "contentId (storage now) = 7"
  "postId (storage now) = 4" "topicId (storage now) = 4"
  by (simp_all add: storage_def seedInitialData_def seed_defs new_MemStorage_def Let_def)

lemma storage_keys:
  "map fst (users (storage now)) = []" "map fst (scripts (storage now)) = [1, 2]"
  "map fst (aiConfigs (storage now)) = [1, 2, 3]" "map fst (platforms (storage now)) = [1, 2, 3]"
  "map fst (platformAccounts (storage now)) = [1, 2, 3]"
  "map fst (contents (storage now)) = [1, 2, 3]"
  "map fst (scheduledPosts (storage now)) = [1, 2, 3]"
  "map fst (trendingTopics (storage now)) = [1, 2, 3]"
  by (simp_all add: storage_def seedInitialData_def seed_defs new_MemStorage_def Let_def)

text \<open>The discipline holds of the seeded store, and every update and delete keeps it.\<close>

lemma store_ok_storage: "store_ok (storage now)"
  by (simp add: store_ok_def table_ok_def storage_def seedInitialData_def seed_defs
      new_MemStorage_def Let_def)

lemma store_ok_delete:
  assumes "store_ok s"
  shows "store_ok (snd (deleteScript k s))" and "store_ok (snd (deleteAiConfig k s))"
    and "store_ok (snd (deletePlatform k s))" and "store_ok (snd (deletePlatformAccount k s))"
    and "store_ok (snd (deleteContent k s))" and "store_ok (snd (deleteScheduledPost k s))"
    and "store_ok (snd (deleteTrendingTopic k s))"
  using assms
  by (simp_all add: store_ok_def deleteScript_def deleteAiConfig_def deletePlatform_def
      deletePlatformAccount_def deleteContent_def deleteScheduledPost_def
      deleteTrendingTopic_def split_def Let_def table_ok_delete)

lemma store_ok_update:
  assumes "store_ok s"
  shows "store_ok (snd (updateScript k u1 s))" and "store_ok (snd (updateAiConfig now k u2 s))"
    and "store_ok (snd (updatePlatform k u3 s))"
    and "store_ok (snd (updatePlatformAccount k u4 s))"
    and "store_ok (snd (updateContent k u5 s))" and "store_ok (snd (updateScheduledPost k u6 s))"
    and "store_ok (snd (updateTrendingTopic k u7 s))"
proof -
  have id_of: "ident e = k"
    if "table_ok ident n m" and "map_get m k = Some e" for ident :: "'v \<Rightarrow> int" and n m e
    using that by (auto simp: table_ok_def map_get_def dest!: map_of_SomeD)
  show "store_ok (snd (updateScript k u1 s))"
    using assms
    by (auto simp: store_ok_def updateScript_def Let_def merge_Script_def split: option.splits
        intro!: table_ok_update dest: id_of)
  show "store_ok (snd (updateAiConfig now k u2 s))"
    using assms
    by (auto simp: store_ok_def updateAiConfig_def Let_def merge_AiConfig_def
        split: option.splits intro!: table_ok_update dest: id_of)
  show "store_ok (snd (updatePlatform k u3 s))"
    using assms
    by (auto simp: store_ok_def updatePlatform_def Let_def merge_Platform_def
        split: option.splits intro!: table_ok_update dest: id_of)
  show "store_ok (snd (updatePlatformAccount k u4 s))"
    using assms
    by (auto simp: store_ok_def updatePlatformAccount_def Let_def merge_PlatformAccount_def
        split: option.splits intro!: table_ok_update dest: id_of)
  show "store_ok (snd (updateContent k u5 s))"
    using assms
    by (auto simp: store_ok_def updateContent_def Let_def merge_Content_def
        split: option.splits intro!: table_ok_update dest: id_of)
  show "store_ok (snd (updateScheduledPost k u6 s))"
    using assms
    by (auto simp: store_ok_def updateScheduledPost_def Let_def merge_ScheduledPost_def
        split: option.splits intro!: table_ok_update dest: id_of)
  show "store_ok (snd (updateTrendingTopic k u7 s))"
    using assms
    by (auto simp: store_ok_def updateTrendingTopic_def Let_def merge_TrendingTopic_def
        split: option.splits intro!: table_ok_update dest: id_of)
qed

lemma storage_top_topic:
  "map topic_trendScore (getTopTrendingTopics (storage now) 1) = [92]"
  by (simp add: getTopTrendingTopics_def storage_def seedInitialData_def seed_defs
      new_MemStorage_def Let_def map_values_def sort_cmp_def slice0_def)

text \<open>
  Claim C5. From a store that keeps the identifier discipline, as the store of the
  application does from its construction on (\<open>store_ok_storage\<close>, and the lemmas on
  creates, updates and deletes), run any sequence of create calls. For every entity type,
  the ids returned for that type are strictly increasing in call order and none of them
  was in use before; and after every prefix of the sequence the live entities of that
  type have pairwise distinct ids.
\<close>

theorem created_ids_increasing_and_unique:
  assumes "store_ok s"
  shows "sorted_wrt (<) (returned_ids kind (fst (run_creates calls s))) \<and>
         (\<forall>i \<in> set (returned_ids kind (fst (run_creates calls s))). i \<notin> set (live_ids kind s)) \<and>
         (\<forall>n. distinct (live_ids kind (snd (run_creates (take n calls) s))))"
proof (intro conjI ballI allI)
  show "sorted_wrt (<) (returned_ids kind (fst (run_creates calls s)))"
    using run_creates_ids [of kind s calls] by simp
next
  fix i
  assume "i \<in> set (returned_ids kind (fst (run_creates calls s)))"
  then have "next_id kind s \<le> i"
    using run_creates_ids [of kind s calls] by blast
  moreover have "\<forall>j \<in> set (live_ids kind s). j < next_id kind s"
    using assms by (cases kind) (auto simp: store_ok_def table_ok_def map_values_def)
  ultimately show "i \<notin> set (live_ids kind s)"
    by auto
next
  fix n
  have "store_ok (snd (run_creates (take n calls) s))"
    using assms by (rule run_creates_ok)
  then show "distinct (live_ids kind (snd (run_creates (take n calls) s)))"
    by (rule store_ok_distinct)
qed

text \<open>
  From the empty store, the nine example calls: the three topic ids come out as 1, 2, 3.
\<close>

theorem created_ids_increasing_and_unique_witness:
  "store_ok new_MemStorage \<and>
   returned_ids KTrendingTopic (fst (run_creates example_calls new_MemStorage)) = [1, 2, 3] \<and>
   sorted_wrt (<) (returned_ids KTrendingTopic (fst (run_creates example_calls new_MemStorage))) \<and>
   distinct (live_ids KTrendingTopic example_store)"
proof -
  note facts = created_ids_increasing_and_unique [OF store_ok_new,
      of KTrendingTopic example_calls]
  have "take 9 example_calls = example_calls"
    by (simp add: example_calls_def)
  with facts have "distinct (live_ids KTrendingTopic example_store)"
    unfolding example_store_def by metis
  with facts store_ok_new example_log show ?thesis
    by blast
qed

subsection \<open>Updates\<close>

lemma takes_spread: "takes payload old (spread old payload)"
  by (simp add: takes_def spread_def split: option.splits)

lemma updateScript_merges:
  assumes "getScript s k = Some e"
  shows "fst (updateScript k u s) = Some (merge_Script e u)"
    and "getScript (snd (updateScript k u s)) k = Some (merge_Script e u)"
    and "shallow_merge_Script e u (merge_Script e u)"
  using assms
  by (simp_all add: getScript_def updateScript_def Let_def map_get_set_same
      shallow_merge_Script_def merge_Script_def takes_spread)

lemma updateAiConfig_merges:
  assumes "getAiConfig s k = Some e"
  shows "fst (updateAiConfig now k u s) = Some (merge_AiConfig now e u)"
    and "getAiConfig (snd (updateAiConfig now k u s)) k = Some (merge_AiConfig now e u)"
    and "shallow_merge_AiConfig_fields e u (merge_AiConfig now e u)"
    and "aic_lastUpdated (merge_AiConfig now e u) = now"
  using assms
  by (simp_all add: getAiConfig_def updateAiConfig_def Let_def map_get_set_same
      shallow_merge_AiConfig_fields_def merge_AiConfig_def takes_spread)

lemma updatePlatform_merges:
  assumes "getPlatform s k = Some e"
  shows "fst (updatePlatform k u s) = Some (merge_Platform e u)"
    and "getPlatform (snd (updatePlatform k u s)) k = Some (merge_Platform e u)"
    and "shallow_merge_Platform e u (merge_Platform e u)"
  using assms
  by (simp_all add: getPlatform_def updatePlatform_def Let_def map_get_set_same
      shallow_merge_Platform_def merge_Platform_def takes_spread)

lemma updatePlatformAccount_merges:
  assumes "getPlatformAccount s k = Some e"
  shows "fst (updatePlatformAccount k u s) = Some (merge_PlatformAccount e u)"
    and "getPlatformAccount (snd (updatePlatformAccount k u s)) k
           = Some (merge_PlatformAccount e u)"
    and "shallow_merge_PlatformAccount e u (merge_PlatformAccount e u)"
  using assms
  by (simp_all add: getPlatformAccount_def updatePlatformAccount_def Let_def map_get_set_same
      shallow_merge_PlatformAccount_def merge_PlatformAccount_def takes_spread)

lemma updateContent_merges:
  assumes "getContent s k = Some e"
  shows "fst (updateContent k u s) = Some (merge_Content e u)"
    and "getContent (snd (updateContent k u s)) k = Some (merge_Content e u)"
    and "shallow_merge_Content e u (merge_Content e u)"
  using assms
  by (simp_all add: getContent_def updateContent_def Let_def map_get_set_same
      shallow_merge_Content_def merge_Content_def takes_spread)

lemma updateScheduledPost_merges:
  assumes "getScheduledPost s k = Some e"
  shows "fst (updateScheduledPost k u s) = Some (merge_ScheduledPost e u)"
    and "getScheduledPost (snd (updateScheduledPost k u s)) k = Some (merge_ScheduledPost e u)"
    and "shallow_merge_ScheduledPost e u (merge_ScheduledPost e u)"
  using assms
  by (simp_all add: getScheduledPost_def updateScheduledPost_def Let_def map_get_set_same
      shallow_merge_ScheduledPost_def merge_ScheduledPost_def takes_spread)

lemma updateTrendingTopic_merges:
  assumes "getTrendingTopic s k = Some e"
  shows "fst (updateTrendingTopic k u s) = Some (merge_TrendingTopic e u)"
    and "getTrendingTopic (snd (updateTrendingTopic k u s)) k = Some (merge_TrendingTopic e u)"
    and "shallow_merge_TrendingTopic e u (merge_TrendingTopic e u)"
  using assms
  by (simp_all add: getTrendingTopic_def updateTrendingTopic_def Let_def map_get_set_same
      shallow_merge_TrendingTopic_def merge_TrendingTopic_def takes_spread)

text \<open>
  Claim C7, as the code has it. For each of the seven entity types with an update
  operation, updating an existing entity returns the shallow merge of the payload into
  the stored record: fields the payload carries take its values, all others, the id
  included, are unchanged; and a get of the same id afterwards returns that record. The
  one exception is \<open>updateAiConfig\<close>, which also sets \<open>lastUpdated\<close> to the current time,
  a field no payload carries.
\<close>

theorem update_returns_and_stores_the_merge:
  "(getScript s k = Some e1 \<longrightarrow>
      (\<exists>e'. fst (updateScript k u1 s) = Some e' \<and> shallow_merge_Script e1 u1 e' \<and>
            getScript (snd (updateScript k u1 s)) k = Some e')) \<and>
   (getAiConfig s k = Some e2 \<longrightarrow>
      (\<exists>e'. fst (updateAiConfig now k u2 s) = Some e' \<and>
            shallow_merge_AiConfig_fields e2 u2 e' \<and> aic_lastUpdated e' = now \<and>
            getAiConfig (snd (updateAiConfig now k u2 s)) k = Some e')) \<and>
   (getPlatform s k = Some e3 \<longrightarrow>
      (\<exists>e'. fst (updatePlatform k u3 s) = Some e' \<and> shallow_merge_Platform e3 u3 e' \<and>
            getPlatform (snd (updatePlatform k u3 s)) k = Some e')) \<and>
   (getPlatformAccount s k = Some e4 \<longrightarrow>
      (\<exists>e'. fst (updatePlatformAccount k u4 s) = Some e' \<and>
            shallow_merge_PlatformAccount e4 u4 e' \<and>
            getPlatformAccount (snd (updatePlatformAccount k u4 s)) k = Some e')) \<and>
   (getContent s k = Some e5 \<longrightarrow>
      (\<exists>e'. fst (updateContent k u5 s) = Some e' \<and> shallow_merge_Content e5 u5 e' \<and>
            getContent (snd (updateContent k u5 s)) k = Some e')) \<and>
   (getScheduledPost s k = Some e6 \<longrightarrow>
      (\<exists>e'. fst (updateScheduledPost k u6 s) = Some e' \<and>
            shallow_merge_ScheduledPost e6 u6 e' \<and>
            getScheduledPost (snd (updateScheduledPost k u6 s)) k = Some e')) \<and>
   (getTrendingTopic s k = Some e7 \<longrightarrow>
      (\<exists>e'. fst (updateTrendingTopic k u7 s) = Some e' \<and>
            shallow_merge_TrendingTopic e7 u7 e' \<and>
            getTrendingTopic (snd (updateTrendingTopic k u7 s)) k = Some e'))"
proof (intro conjI impI)
  show "\<exists>e'. fst (updateScript k u1 s) = Some e' \<and> shallow_merge_Script e1 u1 e' \<and>
          getScript (snd (updateScript k u1 s)) k = Some e'"
    if "getScript s k = Some e1"
    using updateScript_merges [OF that, of u1] by blast
  show "\<exists>e'. fst (updateAiConfig now k u2 s) = Some e' \<and>
          shallow_merge_AiConfig_fields e2 u2 e' \<and> aic_lastUpdated e' = now \<and>
          getAiConfig (snd (updateAiConfig now k u2 s)) k = Some e'"
    if "getAiConfig s k = Some e2"
    using updateAiConfig_merges [OF that, where now = now and u = u2] by blast
  show "\<exists>e'. fst (updatePlatform k u3 s) = Some e' \<and> shallow_merge_Platform e3 u3 e' \<and>
          getPlatform (snd (updatePlatform k u3 s)) k = Some e'"
    if "getPlatform s k = Some e3"
    using updatePlatform_merges [OF that, of u3] by blast
  show "\<exists>e'. fst (updatePlatformAccount k u4 s) = Some e' \<and>
          shallow_merge_PlatformAccount e4 u4 e' \<and>
          getPlatformAccount (snd (updatePlatformAccount k u4 s)) k = Some e'"
    if "getPlatformAccount s k = Some e4"
    using updatePlatformAccount_merges [OF that, of u4] by blast
  show "\<exists>e'. fst (updateContent k u5 s) = Some e' \<and> shallow_merge_Content e5 u5 e' \<and>
          getContent (snd (updateContent k u5 s)) k = Some e'"
    if "getContent s k = Some e5"
    using updateContent_merges [OF that, of u5] by blast
  show "\<exists>e'. fst (updateScheduledPost k u6 s) = Some e' \<and>
          shallow_merge_ScheduledPost e6 u6 e' \<and>
          getScheduledPost (snd (updateScheduledPost k u6 s)) k = Some e'"
    if "getScheduledPost s k = Some e6"
    using updateScheduledPost_merges [OF that, of u6] by blast
  show "\<exists>e'. fst (updateTrendingTopic k u7 s) = Some e' \<and>
          shallow_merge_TrendingTopic e7 u7 e' \<and>
          getTrendingTopic (snd (updateTrendingTopic k u7 s)) k = Some e'"
    if "getTrendingTopic s k = Some e7"
    using updateTrendingTopic_merges [OF that, of u7] by blast
qed

text \<open>At the example store, id 1 of every type, with the example payloads.\<close>

theorem update_returns_and_stores_the_merge_witness:
  "(\<exists>e e'. getScript example_store 1 = Some e \<and>
       fst (updateScript 1 example_script_update example_store) = Some e' \<and>
       shallow_merge_Script e example_script_update e' \<and>
       getScript (snd (updateScript 1 example_script_update example_store)) 1 = Some e') \<and>
   (\<exists>e e'. getAiConfig example_store 1 = Some e \<and>
       fst (updateAiConfig 500 1 empty_config_update example_store) = Some e' \<and>
       shallow_merge_AiConfig_fields e empty_config_update e' \<and> aic_lastUpdated e' = 500 \<and>
       getAiConfig (snd (updateAiConfig 500 1 empty_config_update example_store)) 1 = Some e') \<and>
   (\<exists>e e'. getPlatform example_store 1 = Some e \<and>
       fst (updatePlatform 1 example_platform_update example_store) = Some e' \<and>
       shallow_merge_Platform e example_platform_update e' \<and>
       getPlatform (snd (updatePlatform 1 example_platform_update example_store)) 1 = Some e') \<and>
   (\<exists>e e'. getPlatformAccount example_store 1 = Some e \<and>
       fst (updatePlatformAccount 1 example_account_update example_store) = Some e' \<and>
       shallow_merge_PlatformAccount e example_account_update e' \<and>
       getPlatformAccount (snd (updatePlatformAccount 1 example_account_update example_store)) 1
         = Some e') \<and>
   (\<exists>e e'. getContent example_store 1 = Some e \<and>
       fst (updateContent 1 example_content_update example_store) = Some e' \<and>
       shallow_merge_Content e example_content_update e' \<and>
       getContent (snd (updateContent 1 example_content_update example_store)) 1 = Some e') \<and>
   (\<exists>e e'. getScheduledPost example_store 1 = Some e \<and>
       fst (updateScheduledPost 1 example_post_update example_store) = Some e' \<and>
       shallow_merge_ScheduledPost e example_post_update e' \<and>
       getScheduledPost (snd (updateScheduledPost 1 example_post_update example_store)) 1
         = Some e') \<and>
   (\<exists>e e'. getTrendingTopic example_store 1 = Some e \<and>
       fst (updateTrendingTopic 1 example_topic_update example_store) = Some e' \<and>
       shallow_merge_TrendingTopic e example_topic_update e' \<and>
       getTrendingTopic (snd (updateTrendingTopic 1 example_topic_update example_store)) 1
         = Some e')"
proof -
  obtain e1 e2 e3 e4 e5 e6 e7 where gets:
    "getScript example_store 1 = Some e1" "getAiConfig example_store 1 = Some e2"
    "getPlatform example_store 1 = Some e3" "getPlatformAccount example_store 1 = Some e4"
    "getContent example_store 1 = Some e5" "getScheduledPost example_store 1 = Some e6"
    "getTrendingTopic example_store 1 = Some e7"
    using example_gets by auto
  from gets update_returns_and_stores_the_merge [of example_store 1 e1 example_script_update
      e2 500 empty_config_update e3 example_platform_update e4 example_account_update
      e5 example_content_update e6 example_post_update e7 example_topic_update]
  show ?thesis
    by blast
qed

text \<open>
  Claim C7 as stated fails for AI configurations: an update that carries no field at all
  still changes \<open>lastUpdated\<close>, here from 100 to the clock value 500.
\<close>

theorem updateAiConfig_lastUpdated_counterexample:
  "getAiConfig example_store 1 = Some example_config \<and>
   fst (updateAiConfig 500 1 empty_config_update example_store)
     = Some (example_config\<lparr>aic_lastUpdated := 500\<rparr>) \<and>
   aic_lastUpdated example_config = 100 \<and>
   aic_lastUpdated (example_config\<lparr>aic_lastUpdated := 500\<rparr>) = 500 \<and>
   \<not> shallow_merge_AiConfig example_config empty_config_update
       (example_config\<lparr>aic_lastUpdated := 500\<rparr>)"
  by (simp add: example_gets updateAiConfig_def getAiConfig_def [symmetric] merge_AiConfig_def
      empty_config_update_def spread_def shallow_merge_AiConfig_def)
    (simp add: example_config_def Let_def)

subsection \<open>The create-content pipeline\<close>

lemma map_get_set_other: "k' \<noteq> k \<Longrightarrow> map_get (map_set m k v) k' = map_get m k'"
  by (induction m) (auto simp: map_get_def)

lemma schedule_step_frame:
  assumes "schedule_step now request content s = (p, s')"
  shows "contents s' = contents s" and "scripts s' = scripts s"
    and "contentId s' = contentId s" and "scriptId s' = scriptId s"
    and "trendingTopics s' = trendingTopics s" and "platformAccounts s' = platformAccounts s"
  using assms
  by (auto simp: schedule_step_def createScheduledPost_def Let_def
      split: option.splits bool.splits if_splits list.splits)

lemma schedule_step_skipped:
  assumes "schedule_step now request content s = (None, s')"
  shows "s' = s"
  using assms
  by (auto simp: schedule_step_def createScheduledPost_def Let_def
      split: option.splits bool.splits if_splits list.splits)


lemma create_text_Created:
  assumes "create_text sv clk request topic s = (Created r, s')"
  shows "res_topic r = topic \<and>
         content_id (res_content r) = contentId s \<and>
         content_contentType (res_content r) = ''text'' \<and>
         content_filePath (res_content r) = None \<and>
         schedule_step (clock_schedule clk) request (res_content r)
           (s\<lparr>contentId := contentId s + 1,
              contents := map_set (contents s) (contentId s) (res_content r)\<rparr>)
           = (res_scheduledPost r, s')"
  using assms
  by (auto simp: create_text_def createContent_def Let_def or_null_str_def
      split: sum.splits prod.splits)

lemma generateImage_path: "fst (generateImage now params g) = Inr img \<Longrightarrow> imagePath img \<noteq> []"
  by (auto simp: generateImage_def Let_def outputDir_def split: property.splits)

lemma create_image_Created:
  assumes "create_image g clk request topic s = (Created r, s')"
  shows "res_topic r = topic \<and>
         content_id (res_content r) = contentId s \<and>
         content_contentType (res_content r) = ''image'' \<and>
         content_filePath (res_content r) \<noteq> None \<and>
         content_thumbnailPath (res_content r) = content_filePath (res_content r) \<and>
         schedule_step (clock_schedule clk) request (res_content r)
           (s\<lparr>contentId := contentId s + 1,
              contents := map_set (contents s) (contentId s) (res_content r)\<rparr>)
           = (res_scheduledPost r, s')"
  using assms
  by (auto simp: create_image_def createContent_def Let_def or_null_str_def
      dest: generateImage_path split: sum.splits prod.splits)

lemma create_video_Created:
  assumes "create_video sv g clk request topic s = (Created r, s')"
  shows "res_topic r = topic \<and>
         content_id (res_content r) = contentId s \<and>
         content_contentType (res_content r) = ''video'' \<and>
         (case res_artifacts r of
            VideoArtifacts script video \<Rightarrow>
              script_id script = scriptId s \<and>
              json_field (content_metadata (res_content r)) ''scriptId''
                = Some (JNum (of_int (script_id script))) \<and>
              schedule_step (clock_schedule clk) request (res_content r)
                (s\<lparr>scriptId := scriptId s + 1,
                   scripts := map_set (scripts s) (scriptId s) script,
                   contentId := contentId s + 1,
                   contents := map_set (contents s) (contentId s) (res_content r)\<rparr>)
                = (res_scheduledPost r, s')
          | _ \<Rightarrow> False)"
  using assms
  by (auto simp: create_video_def createContent_def createScript_def Let_def or_obj_def
      split: sum.splits prod.splits)

lemma sorted_desc_hd_max:
  "sorted_wrt (\<lambda>a b. (f a :: int) \<ge> f b) (x # xs) \<Longrightarrow> y \<in> set (x # xs) \<Longrightarrow> f y \<le> f x"
  by auto

lemma top_topic_empty:
  "getTrendingTopics s = [] \<Longrightarrow> top_topic s = Inl ''No trending topics available''"
  by (simp add: top_topic_def getTopTrendingTopics_def getTrendingTopics_def sort_cmp_def
      slice0_def)

lemma top_topic_max:
  assumes "getTrendingTopics s \<noteq> []"
  shows "\<exists>topic \<in> set (getTrendingTopics s). top_topic s = Inr topic \<and>
           (\<forall>t \<in> set (getTrendingTopics s). topic_trendScore t \<le> topic_trendScore topic)"
proof -
  let ?sorted = "sort_cmp (\<lambda>a b. topic_trendScore b - topic_trendScore a)
                   (map_values (trendingTopics s))"
  have "length ?sorted = length (getTrendingTopics s)"
    by (simp add: length_sort_cmp getTrendingTopics_def)
  with assms obtain x xs where sorted: "?sorted = x # xs"
    by (cases ?sorted) auto
  have desc: "sorted_wrt (\<lambda>a b. topic_trendScore a \<ge> topic_trendScore b) (x # xs)"
    using sorted_sort_key_desc [of topic_trendScore "map_values (trendingTopics s)"]
    by (simp add: sorted)
  have members: "set (x # xs) = set (getTrendingTopics s)"
    using set_sort_cmp [of "\<lambda>a b. topic_trendScore b - topic_trendScore a"
                          "map_values (trendingTopics s)"]
    by (simp add: sorted getTrendingTopics_def)
  have "top_topic s = Inr x"
    by (simp add: top_topic_def getTopTrendingTopics_def sorted slice0_def)
  moreover have "x \<in> set (getTrendingTopics s)"
    using members by auto
  moreover have "\<forall>t \<in> set (getTrendingTopics s). topic_trendScore t \<le> topic_trendScore x"
    using desc members by auto
  ultimately show ?thesis by blast
qed

lemma create_content_Created_topic:
  assumes "create_content sv g clk request s = (Created r, s')"
  shows "resolve_topic request s = Inr (res_topic r)"
  using assms
  by (auto simp: create_content_def split: sum.splits option.splits contentType.splits
      dest: create_text_Created create_image_Created create_video_Created)

text \<open>
  Claim C1. With no \<open>topicId\<close> in the request: if the store has no trending topic, the
  handler answers 404 "No trending topics available" and returns the store as it was, so
  no Content, Script or ScheduledPost is created; if it has one, topic resolution yields
  a stored topic whose \<open>trendScore\<close> is maximal over all stored topics; and whenever the
  handler answers 201, the topic in the result is the resolved one.
\<close>

theorem create_content_topic_fallback:
  assumes "req_topicId request = None"
  shows "(getTrendingTopics s = [] \<longrightarrow>
           create_content sv g clk request s = (NotFound ''No trending topics available'', s)) \<and>
         (getTrendingTopics s \<noteq> [] \<longrightarrow>
           (\<exists>topic \<in> set (getTrendingTopics s).
              resolve_topic request s = Inr topic \<and>
              (\<forall>t \<in> set (getTrendingTopics s). topic_trendScore t \<le> topic_trendScore topic))) \<and>
         (\<forall>r s'. create_content sv g clk request s = (Created r, s') \<longrightarrow>
            resolve_topic request s = Inr (res_topic r))"
proof (intro conjI impI allI)
  assume "getTrendingTopics s = []"
  then show "create_content sv g clk request s = (NotFound ''No trending topics available'', s)"
    using assms by (simp add: create_content_def resolve_topic_def top_topic_empty)
next
  assume "getTrendingTopics s \<noteq> []"
  then show "\<exists>topic \<in> set (getTrendingTopics s).
              resolve_topic request s = Inr topic \<and>
              (\<forall>t \<in> set (getTrendingTopics s). topic_trendScore t \<le> topic_trendScore topic)"
    using assms top_topic_max [of s] by (simp add: resolve_topic_def)
next
  fix r s'
  assume "create_content sv g clk request s = (Created r, s')"
  then show "resolve_topic request s = Inr (res_topic r)"
    by (rule create_content_Created_topic)
qed

text \<open>
  At the example store the topic scoring 92 is chosen; at the empty store the answer is
  the 404.
\<close>

theorem create_content_topic_fallback_witness:
  "req_topicId (example_request (Some Text)) = None \<and>
   getTrendingTopics example_store \<noteq> [] \<and>
   resolve_topic (example_request (Some Text)) example_store
     = Inr (stored_topic 3 ''Voice Generation Technology'' 92) \<and>
   getTrendingTopics new_MemStorage = [] \<and>
   create_content example_services new_LocalImageGenerator example_clock
       (example_request (Some Text)) new_MemStorage
     = (NotFound ''No trending topics available'', new_MemStorage)"
proof -
  have none: "req_topicId (example_request (Some Text)) = None"
    by (simp add: example_request_fields)
  have some: "getTrendingTopics example_store \<noteq> []"
    by (simp add: getTrendingTopics_def example_store_topics map_values_def)
  have empty: "getTrendingTopics new_MemStorage = []"
    by (simp add: getTrendingTopics_def new_MemStorage_def map_values_def)
  from create_content_topic_fallback [OF none, of new_MemStorage example_services
      new_LocalImageGenerator example_clock] empty
  have "create_content example_services new_LocalImageGenerator example_clock
          (example_request (Some Text)) new_MemStorage
        = (NotFound ''No trending topics available'', new_MemStorage)"
    by blast
  with none some empty resolve_example [of "Some Text"] show ?thesis
    by simp
qed

lemma schedule_step_contents:
  "schedule_step now request content s = (p, s') \<Longrightarrow> getContent s' k = getContent s k"
  by (simp add: getContent_def schedule_step_frame)

lemma schedule_step_scripts:
  "schedule_step now request content s = (p, s') \<Longrightarrow> getScript s' k = getScript s k"
  by (simp add: getScript_def schedule_step_frame)

lemma create_content_Created_facts:
  assumes "create_content sv g clk request s = (Created r, s')"
  shows "content_id (res_content r) = contentId s \<and>
         getContent s' (content_id (res_content r)) = Some (res_content r) \<and>
         (req_contentType request = Some Text \<longrightarrow>
            content_contentType (res_content r) = ''text'' \<and>
            content_filePath (res_content r) = None) \<and>
         (req_contentType request = Some Image \<longrightarrow>
            content_contentType (res_content r) = ''image'' \<and>
            content_filePath (res_content r) \<noteq> None \<and>
            content_thumbnailPath (res_content r) = content_filePath (res_content r)) \<and>
         (req_contentType request = Some Video \<longrightarrow>
            content_contentType (res_content r) = ''video'' \<and>
            (\<exists>script video.
               res_artifacts r = VideoArtifacts script video \<and>
               script_id script = scriptId s \<and>
               getScript s' (script_id script) = Some script \<and>
               json_field (content_metadata (res_content r)) ''scriptId''
                 = Some (JNum (of_int (script_id script)))))"
proof -
  obtain topic where topic: "resolve_topic request s = Inr topic"
    using assms by (auto simp: create_content_def split: sum.splits)
  show ?thesis
  proof (cases "case req_contentType request of None \<Rightarrow> Video | Some c \<Rightarrow> c")
    case Video
    then have run: "create_video sv g clk request topic s = (Created r, s')"
      using assms topic by (simp add: create_content_def)
    from create_video_Created [OF run] obtain script video where
      art: "res_artifacts r = VideoArtifacts script video"
      by (cases "res_artifacts r") auto
    from create_video_Created [OF run] art have
      cid: "content_id (res_content r) = contentId s"
      and ctype: "content_contentType (res_content r) = ''video''"
      and sid: "script_id script = scriptId s"
      and meta: "json_field (content_metadata (res_content r)) ''scriptId''
                   = Some (JNum (of_int (script_id script)))"
      and step: "schedule_step (clock_schedule clk) request (res_content r)
                   (s\<lparr>scriptId := scriptId s + 1,
                      scripts := map_set (scripts s) (scriptId s) script,
                      contentId := contentId s + 1,
                      contents := map_set (contents s) (contentId s) (res_content r)\<rparr>)
                   = (res_scheduledPost r, s')"
      by simp_all
    have "getContent s' (content_id (res_content r)) = Some (res_content r)"
      using schedule_step_contents [OF step] cid by (simp add: getContent_def map_get_set_same)
    moreover have "getScript s' (script_id script) = Some script"
      using schedule_step_scripts [OF step] sid by (simp add: getScript_def map_get_set_same)
    ultimately show ?thesis
      using Video cid ctype sid meta art by (auto split: option.splits)
  next
    case Image
    then have run: "create_image g clk request topic s = (Created r, s')"
      using assms topic by (simp add: create_content_def)
    note facts = create_image_Created [OF run]
    from facts have cid: "content_id (res_content r) = contentId s"
      and step: "schedule_step (clock_schedule clk) request (res_content r)
                   (s\<lparr>contentId := contentId s + 1,
                      contents := map_set (contents s) (contentId s) (res_content r)\<rparr>)
                   = (res_scheduledPost r, s')"
      by simp_all
    have "getContent s' (content_id (res_content r)) = Some (res_content r)"
      using schedule_step_contents [OF step] cid by (simp add: getContent_def map_get_set_same)
    then show ?thesis
      using Image facts by (auto split: option.splits)
  next
    case Text
    then have run: "create_text sv clk request topic s = (Created r, s')"
      using assms topic by (simp add: create_content_def)
    note facts = create_text_Created [OF run]
    from facts have cid: "content_id (res_content r) = contentId s"
      and step: "schedule_step (clock_schedule clk) request (res_content r)
                   (s\<lparr>contentId := contentId s + 1,
                      contents := map_set (contents s) (contentId s) (res_content r)\<rparr>)
                   = (res_scheduledPost r, s')"
      by simp_all
    have "getContent s' (content_id (res_content r)) = Some (res_content r)"
      using schedule_step_contents [OF step] cid by (simp add: getContent_def map_get_set_same)
    then show ?thesis
      using Text facts by (auto split: option.splits)
  qed
qed

text \<open>
  Claim C2. After every run that answers 201, the Content of the result is stored under
  the id the store assigned. For \<open>contentType = text\<close> it has content type "text" and no
  file path; for "image" it has a file path, and its thumbnail path is that same path;
  for "video" the result carries a Script that is stored under its own, newly assigned id,
  and the Content's \<open>metadata.scriptId\<close> is that id.
\<close>

theorem create_content_branches:
  assumes "create_content sv g clk request s = (Created r, s')"
  shows "content_id (res_content r) = contentId s \<and>
         getContent s' (content_id (res_content r)) = Some (res_content r) \<and>
         (req_contentType request = Some Text \<longrightarrow>
            content_contentType (res_content r) = ''text'' \<and>
            content_filePath (res_content r) = None) \<and>
         (req_contentType request = Some Image \<longrightarrow>
            content_contentType (res_content r) = ''image'' \<and>
            content_filePath (res_content r) \<noteq> None \<and>
            content_thumbnailPath (res_content r) = content_filePath (res_content r)) \<and>
         (req_contentType request = Some Video \<longrightarrow>
            content_contentType (res_content r) = ''video'' \<and>
            (\<exists>script video.
               res_artifacts r = VideoArtifacts script video \<and>
               script_id script = scriptId s \<and>
               getScript s' (script_id script) = Some script \<and>
               json_field (content_metadata (res_content r)) ''scriptId''
                 = Some (JNum (of_int (script_id script)))))"
  using assms by (rule create_content_Created_facts)

text \<open>The three kinds of run on the example store, each answering 201.\<close>

theorem create_content_branches_witness:
  "(\<exists>r s'. create_content example_services new_LocalImageGenerator example_clock
              (example_request (Some Text)) example_store = (Created r, s') \<and>
            content_contentType (res_content r) = ''text'' \<and>
            content_filePath (res_content r) = None) \<and>
   (\<exists>r s'. create_content example_services new_LocalImageGenerator example_clock
              (example_request (Some Image)) example_store = (Created r, s') \<and>
            content_filePath (res_content r) \<noteq> None \<and>
            content_thumbnailPath (res_content r) = content_filePath (res_content r)) \<and>
   (\<exists>r s' script video.
       create_content example_services new_LocalImageGenerator example_clock
         (example_request (Some Video)) example_store = (Created r, s') \<and>
       res_artifacts r = VideoArtifacts script video \<and>
       getScript s' (script_id script) = Some script \<and>
       getContent s' (content_id (res_content r)) = Some (res_content r) \<and>
       json_field (content_metadata (res_content r)) ''scriptId''
         = Some (JNum (of_int (script_id script))))"
proof (intro conjI)
  obtain r s' where run: "create_content example_services new_LocalImageGenerator example_clock
                            (example_request (Some Text)) example_store = (Created r, s')"
    using text_run_succeeds by (rule succeededE)
  from create_content_branches [OF run]
  have "content_contentType (res_content r) = ''text'' \<and> content_filePath (res_content r) = None"
    by (simp add: example_request_fields)
  with run show "\<exists>r s'. create_content example_services new_LocalImageGenerator example_clock
              (example_request (Some Text)) example_store = (Created r, s') \<and>
            content_contentType (res_content r) = ''text'' \<and>
            content_filePath (res_content r) = None"
    by blast
next
  obtain r s' where run: "create_content example_services new_LocalImageGenerator example_clock
                            (example_request (Some Image)) example_store = (Created r, s')"
    using image_run_succeeds by (rule succeededE)
  from create_content_branches [OF run]
  have "content_filePath (res_content r) \<noteq> None \<and>
        content_thumbnailPath (res_content r) = content_filePath (res_content r)"
    by (simp add: example_request_fields)
  with run show "\<exists>r s'. create_content example_services new_LocalImageGenerator example_clock
              (example_request (Some Image)) example_store = (Created r, s') \<and>
            content_filePath (res_content r) \<noteq> None \<and>
            content_thumbnailPath (res_content r) = content_filePath (res_content r)"
    by blast
next
  obtain r s' where run: "create_content example_services new_LocalImageGenerator example_clock
                            (example_request (Some Video)) example_store = (Created r, s')"
    using video_run_succeeds by (rule succeededE)
  from create_content_branches [OF run]
  obtain script video where "res_artifacts r = VideoArtifacts script video"
    and "getScript s' (script_id script) = Some script"
    and "getContent s' (content_id (res_content r)) = Some (res_content r)"
    and "json_field (content_metadata (res_content r)) ''scriptId''
           = Some (JNum (of_int (script_id script)))"
    by (auto simp: example_request_fields)
  with run show "\<exists>r s' script video.
       create_content example_services new_LocalImageGenerator example_clock
         (example_request (Some Video)) example_store = (Created r, s') \<and>
       res_artifacts r = VideoArtifacts script video \<and>
       getScript s' (script_id script) = Some script \<and>
       getContent s' (content_id (res_content r)) = Some (res_content r) \<and>
       json_field (content_metadata (res_content r)) ''scriptId''
         = Some (JNum (of_int (script_id script)))"
    by blast
qed









lemma schedule_step_contentType:
  "schedule_step now (request\<lparr>req_contentType := c\<rparr>) content s
     = schedule_step now request content s"
  by (simp add: schedule_step_def)

text \<open>
  Claim C10. A request without \<open>contentType\<close> is handled exactly as the same request with
  \<open>contentType = video\<close>: same response, same store. When it answers 201 the result
  carries a stored Script and a stored Content of type "video".
\<close>

theorem create_content_default_video:
  assumes "req_contentType request = None"
  shows "create_content sv g clk request s
           = create_content sv g clk (request\<lparr>req_contentType := Some Video\<rparr>) s \<and>
         (\<forall>r s'. create_content sv g clk request s = (Created r, s') \<longrightarrow>
            content_contentType (res_content r) = ''video'' \<and>
            getContent s' (content_id (res_content r)) = Some (res_content r) \<and>
            (\<exists>script video. res_artifacts r = VideoArtifacts script video \<and>
               getScript s' (script_id script) = Some script))"
proof (intro conjI allI impI)
  have "create_video sv g clk (request\<lparr>req_contentType := Some Video\<rparr>) topic s
          = create_video sv g clk request topic s" for topic
    by (simp add: create_video_def schedule_step_contentType Let_def split_def
        split: sum.splits)
  moreover have "resolve_topic (request\<lparr>req_contentType := Some Video\<rparr>) s
                   = resolve_topic request s"
    by (simp add: resolve_topic_def)
  ultimately show "create_content sv g clk request s
           = create_content sv g clk (request\<lparr>req_contentType := Some Video\<rparr>) s"
    using assms by (simp add: create_content_def split: sum.splits)
  then have same: "create_content sv g clk (request\<lparr>req_contentType := Some Video\<rparr>) s
                     = create_content sv g clk request s"
    by simp
  fix r s'
  assume run: "create_content sv g clk request s = (Created r, s')"
  have "create_content sv g clk (request\<lparr>req_contentType := Some Video\<rparr>) s = (Created r, s')"
    using run same by simp
  from create_content_Created_facts [OF this]
  show "content_contentType (res_content r) = ''video''"
    and "getContent s' (content_id (res_content r)) = Some (res_content r)"
    and "\<exists>script video. res_artifacts r = VideoArtifacts script video \<and>
           getScript s' (script_id script) = Some script"
    by auto
qed

text \<open>The example request without a content type, on the example store.\<close>

theorem create_content_default_video_witness:
  "req_contentType (example_request None) = None \<and>
   create_content example_services new_LocalImageGenerator example_clock
       (example_request None) example_store
     = create_content example_services new_LocalImageGenerator example_clock
         ((example_request None)\<lparr>req_contentType := Some Video\<rparr>) example_store \<and>
   succeeded (fst (create_content example_services new_LocalImageGenerator example_clock
                     (example_request None) example_store))"
proof -
  have none: "req_contentType (example_request None) = None"
    by (simp add: example_request_fields)
  have same: "(example_request None)\<lparr>req_contentType := Some Video\<rparr> = example_request (Some Video)"
    by (simp add: example_request_def)
  from create_content_default_video [OF none, of example_services new_LocalImageGenerator
      example_clock example_store]
  have eq: "create_content example_services new_LocalImageGenerator example_clock
              (example_request None) example_store
            = create_content example_services new_LocalImageGenerator example_clock
                ((example_request None)\<lparr>req_contentType := Some Video\<rparr>) example_store"
    by blast
  then have "succeeded (fst (create_content example_services new_LocalImageGenerator
                               example_clock (example_request None) example_store))"
    using video_run_succeeds by (simp add: same)
  with none eq show ?thesis by blast
qed

subsection \<open>Text to speech\<close>

lemma listed_voices_keys: "listed_voices = map fst availableVoices"
  by (simp add: listed_voices_def availableVoices_def)

lemma get_prop_listed:
  assumes "voiceId \<in> set listed_voices"
  shows "\<exists>voice. get_prop availableVoices voiceId = Own voice"
proof -
  have "map_of availableVoices voiceId \<noteq> None"
    using assms by (simp add: map_of_eq_None_iff listed_voices_keys)
  then show ?thesis
    by (auto simp: get_prop_def)
qed

lemma get_prop_unlisted:
  assumes "voiceId \<notin> set listed_voices"
  shows "get_prop availableVoices voiceId
           = (if voiceId \<in> set object_prototype_keys then Inherited else Undefined)"
proof -
  have "map_of availableVoices voiceId = None"
    using assms by (simp add: map_of_eq_None_iff listed_voices_keys)
  then show ?thesis
    by (simp add: get_prop_def)
qed

text \<open>
  What the service does for each kind of voice id: a voice that is downloaded or listed
  yields audio; an id that is neither, and is no inherited member name, throws the
  error naming it; an inherited member name yields audio.
\<close>

lemma textToAudio_unknown_voice_throws:
  assumes "voiceId \<notin> set (downloadedVoices t)" and "voiceId \<notin> set listed_voices"
    and "voiceId \<notin> set object_prototype_keys"
  shows "fst (textToAudio now text voiceId settings t)
           = Inl (JsError (''Voice '' @ voiceId
                             @ '' is not available and could not be downloaded''))"
  using assms get_prop_unlisted [of voiceId]
  by (simp add: textToAudio_def downloadVoice_def Let_def)

lemma textToAudio_available_voice_returns:
  assumes "voiceId \<in> set (downloadedVoices t) \<or> voiceId \<in> set listed_voices"
  shows "\<exists>result. fst (textToAudio now text voiceId settings t) = Inr result"
proof (cases "voiceId \<in> set (downloadedVoices t)")
  case True
  then show ?thesis
    by (simp add: textToAudio_def Let_def)
next
  case False
  with assms obtain voice where "get_prop availableVoices voiceId = Own voice"
    using get_prop_listed by blast
  with False show ?thesis
    by (simp add: textToAudio_def downloadVoice_def Let_def)
qed

lemma textToAudio_inherited_key_returns:
  assumes "voiceId \<in> set object_prototype_keys"
  shows "\<exists>result. fst (textToAudio now text voiceId settings t) = Inr result"
proof (cases "voiceId \<in> set (downloadedVoices t) \<or> voiceId \<in> set listed_voices")
  case True
  then show ?thesis
    by (rule textToAudio_available_voice_returns)
next
  case False
  then have "get_prop availableVoices voiceId = Inherited"
    using assms get_prop_unlisted by simp
  with False show ?thesis
    by (simp add: textToAudio_def downloadVoice_def Let_def)
qed

text \<open>
  Claim C8 at the voice id "constructor", on the service as constructed. The id is not
  downloaded and not among the listed voices, and still both entry points return an
  audio result instead of throwing; the id is then recorded as a downloaded voice.
\<close>

theorem textToAudio_constructor_returns_audio:
  "''constructor'' \<notin> set (downloadedVoices new_LocalTTS) \<and>
   ''constructor'' \<notin> set listed_voices \<and>
   fst (textToAudio 1700 ''hello world'' ''constructor'' no_settings new_LocalTTS)
     = Inr \<lparr>audioPath = ''/content/audio/tts_1_1700.mp3'', durationMs = Some 800,
            audio_format = ''mp3'', wordCount = 2\<rparr> \<and>
   fst (scriptToAudio (\<lambda>script. script) 1700 ''hello world'' ''constructor'' ''mp3''
          new_LocalTTS)
     = Inr \<lparr>audioPath = ''/content/audio/tts_1_1700.mp3'', durationMs = Some 800,
            audio_format = ''mp3'', wordCount = 2\<rparr> \<and>
   downloadedVoices (snd (textToAudio 1700 ''hello world'' ''constructor'' no_settings
                            new_LocalTTS))
     = [''professional-male'', ''professional-female'', ''constructor'']"
  by (simp add: textToAudio_def scriptToAudio_def downloadVoice_def get_prop_def
      availableVoices_def object_prototype_keys_def listed_voices_def new_LocalTTS_def
      no_settings_def defaultSettings_def spread_def set_add_def tts_outputDir_def
      show_int_examples floor_example is_space_def Let_def)

subsection \<open>The trendScore range\<close>

text \<open>
  Claim C9 at the scores 150 and 0. A POST body with \<open>trendScore = 150\<close> passes the insert
  schema and is stored; a PUT body with \<open>trendScore = 0\<close> passes the partial schema and
  replaces the score of topic 1. Neither score lies in \<open>[1, 100]\<close>.
\<close>

theorem trendScore_outside_range_accepted:
  "parse_insertTrendingTopic int32_range body_score_150 \<noteq> None \<and>
   post_trending_topic int32_range 100 body_score_150 new_MemStorage
     = (TopicCreated (stored_topic 1 ''Test'' 150),
        new_MemStorage\<lparr>topicId := 2, trendingTopics := [(1, stored_topic 1 ''Test'' 150)]\<rparr>) \<and>
   \<not> (1 \<le> topic_trendScore (stored_topic 1 ''Test'' 150) \<and>
      topic_trendScore (stored_topic 1 ''Test'' 150) \<le> 100) \<and>
   fst (put_trending_topic int32_range 1 body_score_0 example_store)
     = TopicOk (stored_topic 1 ''Open Source AI Models'' 0) \<and>
   getTrendingTopic (snd (put_trending_topic int32_range 1 body_score_0 example_store)) 1
     = Some (stored_topic 1 ''Open Source AI Models'' 0) \<and>
   \<not> (1 \<le> topic_trendScore (stored_topic 1 ''Open Source AI Models'' 0) \<and>
      topic_trendScore (stored_topic 1 ''Open Source AI Models'' 0) \<le> 100)"
  by (simp add: post_trending_topic_def parse_insertTrendingTopic_def body_score_150_def
      int32_range_def createTrendingTopic_def new_MemStorage_def or_null_str_def stored_topic_def
      put_trending_topic_def parse_partialTrendingTopic_def body_score_0_def
      updateTrendingTopic_def merge_TrendingTopic_def spread_def map_get_def example_store_topics
      getTrendingTopic_def Let_def)

end
